theory Spec2Isabelle
  imports Complex_Main
begin

section \<open>Python values used by the trading core\<close>

subsection \<open>Floats\<close>

text \<open>
  Every price, size and quantity of the program is a Python \<open>float\<close>, and the program
  relies on the not-a-number value throughout: \<open>nan\<close> is the default of every quote
  field, comparisons with it are false, and arithmetic on it gives it back. A float is
  modelled as not-a-number, one of the two infinities, or a finite value. Finite values
  are the reals: rounding and overflow are not modelled. Every operation below follows
  IEEE 754 on the special values and exact arithmetic on the finite ones. The negative
  zero is identified with zero.
\<close>

datatype pyfloat = NaN | PInf | NInf | Fin real

text \<open>
  Modelled from the spec: \<open>is_nan\<close> of \<open>optopus.utils\<close>, which is not among the
  source files. The spec calls a value "unavailable (not-a-number)"; the helper tells
  whether its argument is the not-a-number value.
\<close>

fun is_nan :: "pyfloat \<Rightarrow> bool" where
  "is_nan NaN = True"
| "is_nan PInf = False"
| "is_nan NInf = False"
| "is_nan (Fin _) = False"

fun py_neg :: "pyfloat \<Rightarrow> pyfloat" where
  "py_neg NaN = NaN"
| "py_neg PInf = NInf"
| "py_neg NInf = PInf"
| "py_neg (Fin a) = Fin (- a)"

text \<open>\<open>a + b\<close>\<close>

fun py_add :: "pyfloat \<Rightarrow> pyfloat \<Rightarrow> pyfloat" where
  "py_add NaN _ = NaN"
| "py_add _ NaN = NaN"
| "py_add PInf NInf = NaN"
| "py_add NInf PInf = NaN"
| "py_add PInf _ = PInf"
| "py_add _ PInf = PInf"
| "py_add NInf _ = NInf"
| "py_add _ NInf = NInf"
| "py_add (Fin a) (Fin b) = Fin (a + b)"

text \<open>\<open>a - b\<close>\<close>

definition py_sub :: "pyfloat \<Rightarrow> pyfloat \<Rightarrow> pyfloat" where
  "py_sub a b = py_add a (py_neg b)"

text \<open>\<open>a * b\<close>\<close>

fun py_mul :: "pyfloat \<Rightarrow> pyfloat \<Rightarrow> pyfloat" where
  "py_mul NaN _ = NaN"
| "py_mul _ NaN = NaN"
| "py_mul PInf PInf = PInf"
| "py_mul PInf NInf = NInf"
| "py_mul NInf PInf = NInf"
| "py_mul NInf NInf = PInf"
| "py_mul PInf (Fin b) = (if b = 0 then NaN else if 0 < b then PInf else NInf)"
| "py_mul NInf (Fin b) = (if b = 0 then NaN else if 0 < b then NInf else PInf)"
| "py_mul (Fin a) PInf = (if a = 0 then NaN else if 0 < a then PInf else NInf)"
| "py_mul (Fin a) NInf = (if a = 0 then NaN else if 0 < a then NInf else PInf)"
| "py_mul (Fin a) (Fin b) = Fin (a * b)"

text \<open>\<open>a / 2\<close> and \<open>a * 2\<close>, the only division and the only product of the source.\<close>

fun py_div2 :: "pyfloat \<Rightarrow> pyfloat" where
  "py_div2 NaN = NaN"
| "py_div2 PInf = PInf"
| "py_div2 NInf = NInf"
| "py_div2 (Fin a) = Fin (a / 2)"

definition py_mul2 :: "pyfloat \<Rightarrow> pyfloat" where
  "py_mul2 a = py_mul a (Fin 2)"

text \<open>\<open>a < b\<close>, \<open>a <= b\<close>, \<open>a > b\<close>, \<open>a >= b\<close> and \<open>a == b\<close>: false whenever a side is not a number.\<close>

fun py_lt :: "pyfloat \<Rightarrow> pyfloat \<Rightarrow> bool" where
  "py_lt NaN _ = False"
| "py_lt _ NaN = False"
| "py_lt _ NInf = False"
| "py_lt NInf _ = True"
| "py_lt PInf _ = False"
| "py_lt _ PInf = True"
| "py_lt (Fin a) (Fin b) = (a < b)"

fun py_le :: "pyfloat \<Rightarrow> pyfloat \<Rightarrow> bool" where
  "py_le NaN _ = False"
| "py_le _ NaN = False"
| "py_le NInf _ = True"
| "py_le _ NInf = False"
| "py_le _ PInf = True"
| "py_le PInf _ = False"
| "py_le (Fin a) (Fin b) = (a \<le> b)"

definition py_gt :: "pyfloat \<Rightarrow> pyfloat \<Rightarrow> bool" where
  "py_gt a b = py_lt b a"

definition py_ge :: "pyfloat \<Rightarrow> pyfloat \<Rightarrow> bool" where
  "py_ge a b = py_le b a"

fun py_eq :: "pyfloat \<Rightarrow> pyfloat \<Rightarrow> bool" where
  "py_eq NaN _ = False"
| "py_eq _ NaN = False"
| "py_eq a b = (a = b)"

text \<open>
  \<open>max(0, x)\<close>: Python's \<open>max\<close> keeps its first argument unless a later one is
  greater, so \<open>max(0, nan)\<close> is \<open>0\<close>.
\<close>

definition py_max0 :: "pyfloat \<Rightarrow> pyfloat" where
  "py_max0 x = (if py_gt x (Fin 0) then x else Fin 0)"

text \<open>\<open>abs(x)\<close>\<close>

fun py_abs :: "pyfloat \<Rightarrow> pyfloat" where
  "py_abs NaN = NaN"
| "py_abs PInf = PInf"
| "py_abs NInf = PInf"
| "py_abs (Fin a) = Fin \<bar>a\<bar>"

text \<open>The truth value of a float in a condition: every float but zero is true, \<open>nan\<close> too.\<close>

definition py_truthy :: "pyfloat \<Rightarrow> bool" where
  "py_truthy x = (x \<noteq> Fin 0)"

subsection \<open>Exceptions\<close>

datatype error =
    KeyError
  | AttributeError
  | ValueError
  | TypeError
  | UnboundLocalError

text \<open>A \<open>datetime.datetime\<close>: microseconds on the time line.\<close>

type_synonym datetime = int

section \<open>\<open>data_objects.py\<close>\<close>

datatype DataSource = IB | Quandl

datatype AssetType =
    Stock | Option | Future | Forex | Index | CFD | Bond | Commodity
  | FuturesOption | MutualFund | Warrant

datatype StrategyType = SellNakedPut

datatype OrderType = Market | Limit | Stop

datatype RightType = Call | Put

datatype OptionMoneyness = AtTheMoney | InTheMoney | OutTheMoney | NA

datatype OwnershipType = Buyer | Seller

datatype OrderRol = NewLeg | TakeProfit | StopLoss

datatype OrderStatus =
    APIPending | PendingSubmit | PendingCancel | PreSubmitted | Submitted
  | APICancelled | Cancelled | Filled | Inactive

text \<open>The \<open>value\<close> of an enumeration member, where the source reads it.\<close>

fun OwnershipType_value :: "OwnershipType \<Rightarrow> string" where
  "OwnershipType_value Buyer = ''BUY''"
| "OwnershipType_value Seller = ''SELL''"

fun RightType_value :: "RightType \<Rightarrow> string" where
  "RightType_value Call = ''C''"
| "RightType_value Put = ''P''"

fun OrderRol_value :: "OrderRol \<Rightarrow> string" where
  "OrderRol_value NewLeg = ''NL''"
| "OrderRol_value TakeProfit = ''TP''"
| "OrderRol_value StopLoss = ''SL''"

subsection \<open>\<open>AssetData\<close>: a market snapshot\<close>

record AssetData =
  code :: string
  asset_type :: AssetType
  high :: pyfloat
  low :: pyfloat
  close :: pyfloat
  bid :: pyfloat
  bid_size :: pyfloat
  ask :: pyfloat
  ask_size :: pyfloat
  last :: pyfloat
  last_size :: pyfloat
  time :: "datetime option"
  volume :: pyfloat
  IV_h :: "pyfloat option"
  IV_rank_h :: "pyfloat option"
  IV_percentile_h :: "pyfloat option"
  volume_h :: "pyfloat option"
  stdev :: "pyfloat option"
  beta :: "pyfloat option"
  one_month_return :: "pyfloat option"
  correlation :: "pyfloat option"
  midpoint :: pyfloat
  market_price :: pyfloat

text \<open>
  The three assignments to \<open>market_price\<close> at the end of \<open>AssetData.__init__\<close>, from
  the quote fields and the midpoint already computed.
\<close>

definition derive_market_price ::
  "pyfloat \<Rightarrow> pyfloat \<Rightarrow> pyfloat \<Rightarrow> pyfloat \<Rightarrow> pyfloat \<Rightarrow> pyfloat" where
  "derive_market_price bid' ask' last' close' midpoint' =
     (let mp0 = NaN;
          mp1 = (if is_nan midpoint' \<or> (py_le bid' last' \<and> py_le last' ask') then last' else mp0);
          mp2 = (if is_nan mp1 then midpoint' else mp1);
          mp3 = (if is_nan mp2 \<or> py_eq mp2 (Fin (- 1)) then close' else mp2)
      in mp3)"

text \<open>\<open>AssetData.__init__\<close>\<close>

definition AssetData_init ::
  "string \<Rightarrow> AssetType \<Rightarrow> pyfloat \<Rightarrow> pyfloat \<Rightarrow> pyfloat \<Rightarrow> pyfloat \<Rightarrow> pyfloat \<Rightarrow> pyfloat
   \<Rightarrow> pyfloat \<Rightarrow> pyfloat \<Rightarrow> pyfloat \<Rightarrow> pyfloat \<Rightarrow> datetime option \<Rightarrow> AssetData" where
  "AssetData_init code' asset_type' high' low' close' bid' bid_size' ask' ask_size'
       last' last_size' volume' time' =
     (let midpoint' = py_div2 (py_add bid' ask') in
      \<lparr> code = code', asset_type = asset_type', high = high', low = low', close = close',
        bid = bid', bid_size = bid_size', ask = ask', ask_size = ask_size', last = last',
        last_size = last_size', time = time', volume = volume',
        IV_h = None, IV_rank_h = None, IV_percentile_h = None, volume_h = None,
        stdev = None, beta = None, one_month_return = None, correlation = None,
        midpoint = midpoint',
        market_price = derive_market_price bid' ask' last' close' midpoint' \<rparr>)"

subsection \<open>\<open>Asset\<close>: a tradable underlying and what is cached of it\<close>

text \<open>
  The fields are those \<open>Asset.__init__\<close> assigns, with the leading underscore of the
  private ones dropped, and \<open>historical_data_updated\<close>, the attribute that the two
  historical setters create (\<open>None\<close> here while it does not exist; nothing reads it).
  \<open>'cur\<close> is the \<open>Currency\<close> enumeration of \<open>optopus.currency\<close>, \<open>'k\<close> a broker
  contract, \<open>'h\<close> a historical series and \<open>'o\<close> an option chain.
\<close>

record ('cur, 'k, 'h, 'o) Asset =
  code :: string
  asset_type :: AssetType
  data_source :: DataSource
  currency :: 'cur
  data :: "AssetData option"
  contract :: "'k option"
  historical_data :: "'h option"
  historical_IV_data :: "'h option"
  historical_updated :: "datetime option"
  historical_IV_updated :: "datetime option"
  option_chain :: "'o option"
  historical_data_updated :: "datetime option"

text \<open>
  \<open>Asset.__init__\<close>. Its first argument here is the constant \<open>CURRENCY\<close> of
  \<open>optopus.settings\<close>, which is not among the source files; the last one is the
  constructor's own \<open>currency\<close> parameter.
\<close>

definition Asset_init ::
  "'cur \<Rightarrow> string \<Rightarrow> AssetType \<Rightarrow> DataSource \<Rightarrow> 'cur \<Rightarrow> ('cur, 'k, 'h, 'o) Asset" where
  "Asset_init CURRENCY code' asset_type' data_source' currency' =
     \<lparr> Asset.code = code', Asset.asset_type = asset_type', data_source = data_source',
       currency = CURRENCY, data = None, contract = None, historical_data = None,
       historical_IV_data = None, historical_updated = None, historical_IV_updated = None,
       option_chain = None, historical_data_updated = None \<rparr>"

text \<open>The property \<open>current\<close> and its setter.\<close>

definition current :: "('cur, 'k, 'h, 'o) Asset \<Rightarrow> AssetData option" where
  "current a = data a"

definition current_set :: "('cur, 'k, 'h, 'o) Asset \<Rightarrow> AssetData \<Rightarrow> ('cur, 'k, 'h, 'o) Asset" where
  "current_set a values = a\<lparr>data := Some values\<rparr>"

text \<open>
  The properties \<open>historical\<close> and \<open>historical_IV\<close> and their setters; \<open>now\<close> is what
  \<open>datetime.datetime.now()\<close> returns in the setter.
\<close>

definition historical :: "('cur, 'k, 'h, 'o) Asset \<Rightarrow> 'h option" where
  "historical a = historical_data a"

definition historical_set ::
  "('cur, 'k, 'h, 'o) Asset \<Rightarrow> 'h \<Rightarrow> datetime \<Rightarrow> ('cur, 'k, 'h, 'o) Asset" where
  "historical_set a values now =
     a\<lparr>historical_data := Some values, historical_data_updated := Some now\<rparr>"

definition historical_IV :: "('cur, 'k, 'h, 'o) Asset \<Rightarrow> 'h option" where
  "historical_IV a = historical_IV_data a"

definition historical_IV_set ::
  "('cur, 'k, 'h, 'o) Asset \<Rightarrow> 'h \<Rightarrow> datetime \<Rightarrow> ('cur, 'k, 'h, 'o) Asset" where
  "historical_IV_set a values now =
     a\<lparr>historical_IV_data := Some values, historical_data_updated := Some now\<rparr>"

text \<open>The property \<open>market_price\<close>: reading it of an asset with no snapshot raises.\<close>

definition Asset_market_price :: "('cur, 'k, 'h, 'o) Asset \<Rightarrow> error + pyfloat" where
  "Asset_market_price a =
     (case data a of None \<Rightarrow> Inl AttributeError | Some d \<Rightarrow> Inr (market_price d))"

text \<open>The \<open>days\<close> of the \<open>timedelta\<close> between two times: whole days, rounded down.\<close>

definition timedelta_days :: "datetime \<Rightarrow> datetime \<Rightarrow> int" where
  "timedelta_days now t = (now - t) div 86400000000"

text \<open>
  \<open>historical_is_updated\<close> and \<open>historical_IV_is_updated\<close>; \<open>now\<close> is what
  \<open>datetime.datetime.now()\<close> returns in the check.
\<close>

definition historical_is_updated :: "('cur, 'k, 'h, 'o) Asset \<Rightarrow> datetime \<Rightarrow> bool" where
  "historical_is_updated a now =
     (case historical_updated a of
        Some t \<Rightarrow> (if timedelta_days now t \<noteq> 0 then True else False)
      | None \<Rightarrow> False)"

definition historical_IV_is_updated :: "('cur, 'k, 'h, 'o) Asset \<Rightarrow> datetime \<Rightarrow> bool" where
  "historical_IV_is_updated a now =
     (case historical_IV_updated a of
        Some t \<Rightarrow> (if timedelta_days now t \<noteq> 0 then True else False)
      | None \<Rightarrow> False)"

text \<open>
  A use of the public setters of an asset, and a sequence of such uses, each with the
  time at which it runs.
\<close>

datatype 'h asset_assignment =
    AssignCurrent AssetData
  | AssignHistorical 'h datetime
  | AssignHistoricalIV 'h datetime

fun assign :: "('cur, 'k, 'h, 'o) Asset \<Rightarrow> 'h asset_assignment \<Rightarrow> ('cur, 'k, 'h, 'o) Asset" where
  "assign a (AssignCurrent v) = current_set a v"
| "assign a (AssignHistorical v now) = historical_set a v now"
| "assign a (AssignHistoricalIV v now) = historical_IV_set a v now"

fun assign_all ::
  "('cur, 'k, 'h, 'o) Asset \<Rightarrow> 'h asset_assignment list \<Rightarrow> ('cur, 'k, 'h, 'o) Asset" where
  "assign_all a [] = a"
| "assign_all a (x # xs) = assign_all (assign a x) xs"

subsection \<open>Library calls of \<open>data_objects.py\<close> and of the adapter\<close>

text \<open>
  Four calls format or parse text and are taken as parameters: \<open>parse_ib_date\<close> of
  \<open>optopus.utils\<close> (not among the source files; it may raise), \<open>strftime('%d-%m-%Y')\<close>
  of a date, \<open>strftime('%d-%m-%Y %H:%M:%S')\<close> of a time, and \<open>str(round(x, 1))\<close> of a
  float. \<open>'d\<close> is \<open>datetime.date\<close>.
\<close>

record 'd pylib =
  parse_ib_date :: "string \<Rightarrow> error + 'd"
  format_date :: "'d \<Rightarrow> string"
  format_datetime :: "datetime \<Rightarrow> string"
  str_round1 :: "pyfloat \<Rightarrow> string"

subsection \<open>\<open>PositionData\<close>\<close>

record 'd PositionData =
  code :: string
  asset_type :: AssetType
  ownership :: "OwnershipType option"
  expiration :: "'d option"
  strike :: pyfloat
  right :: "RightType option"
  quantity :: pyfloat
  position_id :: string
  average_cost :: "pyfloat option"
  option_price :: "pyfloat option"
  trade_price :: "pyfloat option"
  trade_time :: "datetime option"
  underlying_price :: "pyfloat option"
  beta :: "pyfloat option"
  delta :: "pyfloat option"
  algorithm :: "string option"
  strategy :: "string option"
  rol :: "OrderRol option"
  DTE :: "int option"

text \<open>
  \<open>PositionData.__init__\<close>. The position identifier reads \<open>ownership.value\<close>,
  \<open>right.value\<close> and \<open>expiration.strftime\<close>, in this order: each raises
  \<open>AttributeError\<close> on \<open>None\<close>.
\<close>

definition PositionData_init ::
  "'d pylib \<Rightarrow> string \<Rightarrow> AssetType \<Rightarrow> OwnershipType option \<Rightarrow> pyfloat \<Rightarrow> 'd option \<Rightarrow> pyfloat
   \<Rightarrow> RightType option \<Rightarrow> pyfloat option \<Rightarrow> error + 'd PositionData" where
  "PositionData_init lib code' asset_type' ownership' quantity' expiration' strike' right'
       average_cost' =
     (case ownership' of
        None \<Rightarrow> Inl AttributeError
      | Some ow \<Rightarrow>
     (case right' of
        None \<Rightarrow> Inl AttributeError
      | Some r \<Rightarrow>
     (case expiration' of
        None \<Rightarrow> Inl AttributeError
      | Some e \<Rightarrow>
        Inr \<lparr> PositionData.code = code', PositionData.asset_type = asset_type',
              ownership = ownership', expiration = expiration', strike = strike',
              right = right', quantity = quantity',
              position_id = code' @ '' '' @ OwnershipType_value ow @ '' '' @ RightType_value r
                @ '' '' @ str_round1 lib strike' @ '' '' @ format_date lib e,
              average_cost = average_cost', option_price = None, trade_price = None,
              trade_time = None, underlying_price = None, PositionData.beta = None,
              delta = None, algorithm = None, strategy = None, rol = None, DTE = None \<rparr>)))"

subsection \<open>\<open>OrderData\<close>\<close>

text \<open>\<open>'a\<close> is the asset of the order and \<open>'k\<close> its broker contract.\<close>

record ('a, 'd, 'k) OrderData =
  asset :: 'a
  rol :: OrderRol
  ownership :: OwnershipType
  quantity :: int
  price :: pyfloat
  order_type :: OrderType
  expiration :: 'd
  strike :: pyfloat
  right :: RightType
  created :: datetime
  updated :: datetime
  status :: OrderStatus
  order_id :: string
  contract :: 'k

text \<open>\<open>OrderData.__init__\<close>; \<open>now\<close> is what \<open>datetime.datetime.now()\<close> returns in it.\<close>

definition OrderData_init ::
  "'d pylib \<Rightarrow> datetime \<Rightarrow> 'a \<Rightarrow> OrderRol \<Rightarrow> OwnershipType \<Rightarrow> int \<Rightarrow> pyfloat \<Rightarrow> OrderType
   \<Rightarrow> 'd \<Rightarrow> pyfloat \<Rightarrow> RightType \<Rightarrow> string \<Rightarrow> 'k \<Rightarrow> ('a, 'd, 'k) OrderData" where
  "OrderData_init lib now asset' rol' ownership' quantity' price' order_type' expiration'
       strike' right' reference' contract' =
     \<lparr> asset = asset', OrderData.rol = rol', OrderData.ownership = ownership',
       OrderData.quantity = quantity', price = price', order_type = order_type',
       OrderData.expiration = expiration', OrderData.strike = strike',
       OrderData.right = right', created = now, updated = now, status = APIPending,
       order_id = reference' @ ''_'' @ OrderRol_value rol' @ '' '' @ format_datetime lib now,
       OrderData.contract = contract' \<rparr>"

subsection \<open>\<open>Leg\<close>\<close>

record ('a, 'cur, 'd, 'k, 'o) Leg =
  asset :: 'a
  ownership :: OwnershipType
  right :: RightType
  expiration :: 'd
  strike :: pyfloat
  multiplier :: int
  strategy_price :: pyfloat
  ratio :: int
  order_price :: "pyfloat option"
  quantity :: "int option"
  currency :: 'cur
  contract :: 'k
  take_profit_factor :: pyfloat
  stop_loss_factor :: pyfloat
  created :: datetime
  filled :: "datetime option"
  commission :: "pyfloat option"
  leg_id :: string
  option :: "'o option"

text \<open>
  \<open>Leg.__init__\<close>; \<open>asset_code\<close> is \<open>asset.code\<close>, read for the leg identifier, and
  \<open>now\<close> what \<open>datetime.datetime.now()\<close> returns.
\<close>

definition Leg_init ::
  "'d pylib \<Rightarrow> datetime \<Rightarrow> ('a \<Rightarrow> string) \<Rightarrow> 'a \<Rightarrow> OwnershipType \<Rightarrow> RightType \<Rightarrow> 'd \<Rightarrow> pyfloat
   \<Rightarrow> int \<Rightarrow> pyfloat \<Rightarrow> int \<Rightarrow> 'cur \<Rightarrow> pyfloat \<Rightarrow> pyfloat \<Rightarrow> 'k \<Rightarrow> ('a, 'cur, 'd, 'k, 'o) Leg" where
  "Leg_init lib now asset_code asset' ownership' right' expiration' strike' multiplier'
       strategy_price' ratio' currency' take_profit_factor' stop_loss_factor' contract' =
     \<lparr> Leg.asset = asset', Leg.ownership = ownership', Leg.right = right',
       Leg.expiration = expiration', Leg.strike = strike', multiplier = multiplier',
       strategy_price = strategy_price', ratio = ratio', order_price = None,
       Leg.quantity = None, Leg.currency = currency', Leg.contract = contract',
       take_profit_factor = take_profit_factor', stop_loss_factor = stop_loss_factor',
       Leg.created = now, filled = None, commission = None,
       leg_id = asset_code asset' @ '' '' @ OwnershipType_value ownership' @ '' ''
         @ RightType_value right' @ '' '' @ str_round1 lib strike' @ '' ''
         @ format_date lib expiration',
       option = None \<rparr>"

section \<open>\<open>ib_adapter.py\<close>\<close>

text \<open>
  The adapter imports \<open>OptionRight\<close> and \<open>OrderAction\<close> from \<open>data_objects\<close>, which
  declares neither. \<open>OptionRight\<close> is used where \<open>data_objects\<close> has \<open>RightType\<close>
  (members \<open>Call\<close> and \<open>Put\<close>, translated from \<open>'C'\<close> and \<open>'P'\<close>), and is read as
  \<open>RightType\<close> here.

  Modelled from the spec: \<open>OrderAction\<close>, the side of an order, which is missing from
  \<open>data_objects.py\<close>; the adapter reads its members \<open>Buy\<close> and, by the spec's "side
  code", its opposite.
\<close>

datatype OrderAction = Buy | Sell

subsection \<open>Objects of the broker library\<close>

text \<open>
  The objects the broker session hands to the adapter, with the fields the adapter
  reads: a contract, a position, an account value, and a trade with its order and its
  order status.
\<close>

record Contract =
  conId :: int
  symbol :: string
  secType :: string
  lastTradeDateOrContractMonth :: string
  strike :: pyfloat
  right :: string
  exchange :: string
  currency :: string

record Position =
  account :: string
  contract :: Contract
  position :: pyfloat
  avgCost :: pyfloat

record AccountValue =
  account :: string
  tag :: string
  val :: string
  currency :: string

record Order =
  action :: string
  orderRef :: string
  volatility :: pyfloat

record TradeStatus =
  status :: string
  avgFillPrice :: pyfloat
  filled :: pyfloat

record Trade =
  contract :: Contract
  order :: Order
  orderStatus :: TradeStatus

subsection \<open>\<open>IBTranslator\<close>: the translation tables\<close>

text \<open>A dictionary with string keys is a finite map, written as its list of entries.\<close>

definition account_translation :: "string \<rightharpoonup> string" where
  "account_translation = map_of
     [(''AccountCode'', ''id''),
      (''AvailableFunds'', ''funds''),
      (''BuyingPower'', ''buying_power''),
      (''TotalCashValue'', ''cash''),
      (''DayTradesRemaining'', ''max_day_trades''),
      (''NetLiquidation'', ''net_liquidation''),
      (''InitMarginReq'', ''initial_margin''),
      (''MaintMarginReq'', ''maintenance_margin''),
      (''ExcessLiquidity'', ''excess_liquidity''),
      (''Cushion'', ''cushion''),
      (''GrossPositionValue'', ''gross_position_value''),
      (''EquityWithLoanValue'', ''equity_with_loan''),
      (''SMA'', ''SMA'')]"

definition sectype_translation :: "string \<rightharpoonup> AssetType" where
  "sectype_translation = map_of
     [(''STK'', Stock),
      (''OPT'', Option),
      (''FUT'', Future),
      (''CASH'', Future),
      (''IND'', Index),
      (''CFD'', CFD),
      (''BOND'', Bond),
      (''CMDTY'', Commodity),
      (''FOP'', FuturesOption),
      (''FUND'', MutualFund),
      (''IOPT'', Warrant)]"

definition right_translation :: "string \<rightharpoonup> RightType" where
  "right_translation = map_of [(''C'', Call), (''P'', Put)]"

definition order_status_translation :: "string \<rightharpoonup> OrderStatus" where
  "order_status_translation = map_of
     [(''PendingSubmit'', PendingSubmit),
      (''PendingCancel'', PendingCancel),
      (''PreSubmitted'', PreSubmitted),
      (''Submitted'', Submitted),
      (''Cancelled'', Cancelled),
      (''Filled'', Filled),
      (''Inactive'', Inactive)]"

definition ownership_translation :: "string \<rightharpoonup> OwnershipType" where
  "ownership_translation = map_of [(''BUY'', Buyer), (''SELL'', Seller)]"

definition strategy_translation :: "string \<rightharpoonup> StrategyType" where
  "strategy_translation = map_of [(''SNP'', SellNakedPut)]"

text \<open>\<open>d[k]\<close>: a lookup that raises \<open>KeyError\<close> on a key the dictionary does not have.\<close>

definition subscript :: "('k \<rightharpoonup> 'v) \<Rightarrow> 'k \<Rightarrow> error + 'v" where
  "subscript d k = (case d k of None \<Rightarrow> Inl KeyError | Some v \<Rightarrow> Inr v)"

subsection \<open>Account values\<close>

text \<open>\<open>_translate_account_tag\<close>: the one lookup that asks first whether the key is there.\<close>

definition translate_account_tag :: "string \<Rightarrow> string option" where
  "translate_account_tag ib_tag =
     (let tag' = None in
      if ib_tag \<in> dom account_translation then account_translation ib_tag else tag')"

text \<open>
  \<open>Money\<close> and \<open>AccountItem\<close> are classes of \<open>optopus.money\<close> and \<open>optopus.account\<close>,
  not among the source files: each is the record of the arguments the translator
  constructs it from.
\<close>

record 'cur Money =
  amount :: string
  money_currency :: 'cur

record 'cur AccountItem =
  item_account :: string
  item_tag :: string
  item_value :: "string option"
  item_money :: "'cur Money option"

text \<open>
  \<open>_translate_value_currency\<close>; \<open>CURRENCY\<close> is the constant of \<open>optopus.settings\<close>
  and \<open>currency_value\<close> reads the \<open>value\<close> of a currency.
\<close>

definition translate_value_currency ::
  "'cur \<Rightarrow> ('cur \<Rightarrow> string) \<Rightarrow> string \<Rightarrow> string \<Rightarrow> 'cur Money option" where
  "translate_value_currency CURRENCY currency_value ib_value ib_currency =
     (let m = None in
      if ib_currency = currency_value CURRENCY
      then Some \<lparr> amount = ib_value, money_currency = CURRENCY \<rparr>
      else m)"

text \<open>
  \<open>translate_account_value\<close>; \<open>is_number\<close> tells whether Python's \<open>float\<close> parses the
  string. A translated tag is a name of the table, never empty, so the test of it is
  the test for \<open>None\<close>.
\<close>

definition translate_account_value ::
  "'cur \<Rightarrow> ('cur \<Rightarrow> string) \<Rightarrow> (string \<Rightarrow> bool) \<Rightarrow> AccountValue \<Rightarrow> 'cur AccountItem option" where
  "translate_account_value CURRENCY currency_value is_number item =
     (case translate_account_tag (tag item) of
        Some opt_tag \<Rightarrow>
          (let (opt_value, opt_money) =
             (if AccountValue.currency item \<noteq> [] \<and> is_number (val item)
              then (None,
                    if \<not> (AccountValue.currency item = ''BASE'')
                    then translate_value_currency CURRENCY currency_value (val item)
                           (AccountValue.currency item)
                    else None)
              else (Some (val item), None))
           in Some \<lparr> item_account = AccountValue.account item, item_tag = opt_tag,
                     item_value = opt_value, item_money = opt_money \<rparr>)
      | None \<Rightarrow> None)"

subsection \<open>Positions\<close>

text \<open>
  The expiration and the right, which \<open>translate_position\<close> and \<open>translate_trade\<close>
  read in the same way: an empty string is \<open>None\<close>, any other is parsed or looked up.
\<close>

definition translate_expiration :: "'d pylib \<Rightarrow> string \<Rightarrow> error + 'd option" where
  "translate_expiration lib expiration' =
     (if expiration' \<noteq> []
      then (case parse_ib_date lib expiration' of Inl e \<Rightarrow> Inl e | Inr d \<Rightarrow> Inr (Some d))
      else Inr None)"

definition translate_right :: "string \<Rightarrow> error + RightType option" where
  "translate_right right' =
     (if right' \<noteq> []
      then (case subscript right_translation right' of Inl e \<Rightarrow> Inl e | Inr r \<Rightarrow> Inr (Some r))
      else Inr None)"

text \<open>\<open>translate_position\<close>\<close>

definition translate_position :: "'d pylib \<Rightarrow> Position \<Rightarrow> error + 'd PositionData" where
  "translate_position lib item =
     (let code' = symbol (Position.contract item) in
      case subscript sectype_translation (secType (Position.contract item)) of
        Inl e \<Rightarrow> Inl e
      | Inr asset_type' \<Rightarrow>
     (let ownership' =
            (if py_gt (position item) (Fin 0) then Some Buyer
             else if py_lt (position item) (Fin 0) then Some Seller
             else None) in
      case translate_expiration lib (lastTradeDateOrContractMonth (Position.contract item)) of
        Inl e \<Rightarrow> Inl e
      | Inr expiration' \<Rightarrow>
     (case translate_right (Contract.right (Position.contract item)) of
        Inl e \<Rightarrow> Inl e
      | Inr right' \<Rightarrow>
        PositionData_init lib code' asset_type' ownership' (py_abs (position item))
          expiration' (Contract.strike (Position.contract item)) right'
          (Some (avgCost item)))))"

text \<open>
  \<open>IBBrokerAdapter._onPositionEvent\<close>: the translated position goes to the callback
  \<open>emit_position_event\<close>, which the core sets at start; an exception of the translator
  leaves the handler with the state as it was.
\<close>

definition onPositionEvent ::
  "'d pylib \<Rightarrow> ('s \<Rightarrow> 'd PositionData \<Rightarrow> 's) \<Rightarrow> 's \<Rightarrow> Position \<Rightarrow> error + 's" where
  "onPositionEvent lib emit_position_event st item =
     (case translate_position lib item of
        Inl e \<Rightarrow> Inl e
      | Inr position' \<Rightarrow> Inr (emit_position_event st position'))"

subsection \<open>Trades\<close>

text \<open>\<open>s.split(sep)\<close> for a separator of one character: never the empty list.\<close>

fun py_split :: "char \<Rightarrow> string \<Rightarrow> string list" where
  "py_split sep [] = [[]]"
| "py_split sep (c # cs) =
     (if c = sep then [] # py_split sep cs
      else (case py_split sep cs of
              w # ws \<Rightarrow> (c # w) # ws
            | [] \<Rightarrow> [[c]]))"

text \<open>
  The order reference \<open>algorithm-strategy_id-rol\<close>, whose strategy identifier has four
  parts separated by \<open>_\<close>, the second being the strategy type: the two unpacking
  assignments raise \<open>ValueError\<close> on any other number of parts, the table lookup
  \<open>KeyError\<close>. The result is the four variables the reference binds.
\<close>

definition parse_orderRef :: "string \<Rightarrow> error + (string \<times> string \<times> StrategyType \<times> string)" where
  "parse_orderRef ref =
     (case py_split CHR ''-'' ref of
        [algorithm', strategy_id', rol'] \<Rightarrow>
          (case py_split CHR ''_'' strategy_id' of
             [_, strategy_type', _, _] \<Rightarrow>
               (case subscript strategy_translation strategy_type' of
                  Inl e \<Rightarrow> Inl e
                | Inr st \<Rightarrow> Inr (algorithm', strategy_id', st, rol'))
           | _ \<Rightarrow> Inl ValueError)
      | _ \<Rightarrow> Inl ValueError)"

text \<open>
  The keyword arguments with which \<open>translate_trade\<close> constructs its \<open>TradeData\<close>.
\<close>

record 'd TradeData_kwargs =
  code :: string
  asset_type :: AssetType
  expiration :: "'d option"
  ownership :: OwnershipType
  quantity :: pyfloat
  strike :: pyfloat
  right :: "RightType option"
  algorithm :: string
  strategy_id :: string
  strategy_type :: StrategyType
  rol :: string
  implied_volatility :: pyfloat
  order_status :: OrderStatus
  time :: datetime
  price :: pyfloat
  data_source_id :: Contract

text \<open>
  \<open>translate_trade\<close>. The constructor \<open>TradeData\<close> is a parameter: the class of this
  name in \<open>data_objects.py\<close> takes \<open>order_id\<close>, \<open>status\<close>, \<open>remaining\<close> and
  \<open>commission\<close>, not these keyword arguments, so the adapter was written for another
  one. Every lookup and every unpacking of the function comes before the call. With no
  order reference, \<open>algorithm\<close> is not bound when the arguments of the call are
  evaluated. \<open>now\<close> is what \<open>datetime.datetime.now()\<close> returns.
\<close>

definition translate_trade ::
  "'d pylib \<Rightarrow> ('d TradeData_kwargs \<Rightarrow> error + 't) \<Rightarrow> datetime \<Rightarrow> Trade \<Rightarrow> error + 't" where
  "translate_trade lib TradeData now item =
     (let code' = symbol (Trade.contract item) in
      case subscript sectype_translation (secType (Trade.contract item)) of
        Inl e \<Rightarrow> Inl e
      | Inr asset_type' \<Rightarrow>
     (case subscript ownership_translation (action (order item)) of
        Inl e \<Rightarrow> Inl e
      | Inr ownership' \<Rightarrow>
     (case translate_expiration lib (lastTradeDateOrContractMonth (Trade.contract item)) of
        Inl e \<Rightarrow> Inl e
      | Inr expiration' \<Rightarrow>
     (case translate_right (Contract.right (Trade.contract item)) of
        Inl e \<Rightarrow> Inl e
      | Inr right' \<Rightarrow>
     (case (if orderRef (order item) \<noteq> []
            then (case parse_orderRef (orderRef (order item)) of
                    Inl e \<Rightarrow> Inl e
                  | Inr r \<Rightarrow> Inr (Some r))
            else Inr None) of
        Inl e \<Rightarrow> Inl e
      | Inr reference' \<Rightarrow>
     (let volatility' =
            (if py_truthy (volatility (order item)) then volatility (order item) else NaN) in
      case subscript order_status_translation (status (orderStatus item)) of
        Inl e \<Rightarrow> Inl e
      | Inr order_status' \<Rightarrow>
     (let price' = avgFillPrice (orderStatus item);
          quantity' = filled (orderStatus item);
          time' = now;
          data_source_id' = Trade.contract item in
      case reference' of
        None \<Rightarrow> Inl UnboundLocalError
      | Some (algorithm', strategy_id', strategy_type', rol') \<Rightarrow>
          TradeData
            \<lparr> TradeData_kwargs.code = code', TradeData_kwargs.asset_type = asset_type',
              TradeData_kwargs.expiration = expiration',
              TradeData_kwargs.ownership = ownership',
              TradeData_kwargs.quantity = quantity',
              TradeData_kwargs.strike = Contract.strike (Trade.contract item),
              TradeData_kwargs.right = right', TradeData_kwargs.algorithm = algorithm',
              strategy_id = strategy_id', strategy_type = strategy_type',
              TradeData_kwargs.rol = rol', implied_volatility = volatility',
              order_status = order_status', TradeData_kwargs.time = time',
              TradeData_kwargs.price = price', data_source_id = data_source_id' \<rparr>)))))))"

subsection \<open>\<open>IBDataAdapter\<close>\<close>

text \<open>
  The contracts \<open>Index(code, currency=...)\<close> and \<open>Stock(code, exchange='SMART',
  currency=...)\<close> of the broker library: a contract of type \<open>IND\<close> or \<open>STK\<close> with
  the given fields and the library's defaults in the others.
\<close>

definition Index_contract :: "string \<Rightarrow> string \<Rightarrow> Contract" where
  "Index_contract symbol' currency' =
     \<lparr> conId = 0, symbol = symbol', secType = ''IND'', lastTradeDateOrContractMonth = [],
       Contract.strike = Fin 0, Contract.right = [], exchange = [],
       Contract.currency = currency' \<rparr>"

definition Stock_contract :: "string \<Rightarrow> string \<Rightarrow> string \<Rightarrow> Contract" where
  "Stock_contract symbol' exchange' currency' =
     \<lparr> conId = 0, symbol = symbol', secType = ''STK'', lastTradeDateOrContractMonth = [],
       Contract.strike = Fin 0, Contract.right = [], exchange = exchange',
       Contract.currency = currency' \<rparr>"

text \<open>
  \<open>qualifyContracts\<close> of the broker library, an external collaborator: it looks each
  contract up on its own and returns, in the order given, those that the venue resolves
  to exactly one contract, completed. \<open>qualify\<close> is the venue's answer for one
  contract.
\<close>

definition qualifyContracts :: "(Contract \<Rightarrow> Contract option) \<Rightarrow> Contract list \<Rightarrow> Contract list" where
  "qualifyContracts qualify contracts = List.map_filter qualify contracts"

text \<open>The loop of \<open>initialize_assets\<close> that makes the contracts to qualify.\<close>

fun asset_contracts :: "string \<Rightarrow> ('cur, 'k, 'h, 'o) Asset list \<Rightarrow> Contract list" where
  "asset_contracts CURRENCY_value [] = []"
| "asset_contracts CURRENCY_value (asset' # assets) =
     (if Asset.asset_type asset' = Index
      then Index_contract (Asset.code asset') CURRENCY_value
             # asset_contracts CURRENCY_value assets
      else if Asset.asset_type asset' = Stock
      then Stock_contract (Asset.code asset') ''SMART'' CURRENCY_value
             # asset_contracts CURRENCY_value assets
      else asset_contracts CURRENCY_value assets)"

text \<open>\<open>{c.symbol: c for c in q_contracts}\<close>: a later contract replaces an earlier one of its symbol.\<close>

definition contracts_by_symbol :: "Contract list \<Rightarrow> (string \<rightharpoonup> Contract)" where
  "contracts_by_symbol q_contracts = foldl (\<lambda>m c. m(symbol c \<mapsto> c)) Map.empty q_contracts"

text \<open>\<open>initialize_assets\<close>; \<open>CURRENCY_value\<close> is \<open>CURRENCY.value\<close>.\<close>

definition initialize_assets ::
  "string \<Rightarrow> (Contract \<Rightarrow> Contract option) \<Rightarrow> ('cur, 'k, 'h, 'o) Asset list
   \<Rightarrow> error + (string \<rightharpoonup> Contract)" where
  "initialize_assets CURRENCY_value qualify assets =
     (let contracts = asset_contracts CURRENCY_value assets;
          q_contracts = qualifyContracts qualify contracts
      in if length q_contracts = length assets
         then Inr (contracts_by_symbol q_contracts)
         else Inl ValueError)"

text \<open>
  \<open>_calculate_moneyness\<close>. \<open>moneyness\<close> is bound only when the right is \<open>'C'\<close> or
  \<open>'P'\<close>; returning it unbound raises.
\<close>

definition calculate_moneyness ::
  "pyfloat \<Rightarrow> pyfloat \<Rightarrow> pyfloat \<Rightarrow> string
   \<Rightarrow> error + (OptionMoneyness \<times> pyfloat \<times> pyfloat)" where
  "calculate_moneyness strike' option_price' underlying_price' right' =
     (let intrinsic0 = Fin 0;
          moneyness0 = None;
          (intrinsic1, moneyness1) =
            (if right' = ''C''
             then (py_max0 (py_sub underlying_price' strike'),
                   if py_gt underlying_price' strike' then Some InTheMoney
                   else if py_lt underlying_price' strike' then Some OutTheMoney
                   else Some InTheMoney)
             else (intrinsic0, moneyness0));
          (intrinsic2, moneyness2) =
            (if right' = ''P''
             then (py_max0 (py_sub strike' underlying_price'),
                   if py_lt underlying_price' strike' then Some InTheMoney
                   else if py_gt underlying_price' strike' then Some OutTheMoney
                   else Some InTheMoney)
             else (intrinsic1, moneyness1));
          extrinsic = py_sub option_price' intrinsic2
      in case moneyness2 of
           None \<Rightarrow> Inl UnboundLocalError
         | Some m \<Rightarrow> Inr (m, intrinsic2, extrinsic))"

subsection \<open>\<open>IBBrokerAdapter\<close>: the bracket order\<close>

text \<open>
  The orders of the broker library that \<open>_place_SNP\<close> makes, each with the arguments
  of its call in the order the source writes them: action, total quantity, limit price
  (for a stop order, stop price), order reference, order identifier, transmit flag and
  parent identifier (\<open>None\<close> where the call gives none).
\<close>

datatype broker_order =
    LimitOrder string int pyfloat string int bool "int option"
  | StopOrder string int pyfloat string int bool "int option"

text \<open>
  The broker session as \<open>_place_SNP\<close> uses it: the next request identifier of the
  connected client and the orders placed so far, each with its contract.
\<close>

record 'k session =
  reqIdSeq :: int
  placed :: "('k \<times> broker_order) list"

text \<open>\<open>client.getReqId()\<close> and \<open>placeOrder(contract, order)\<close> of the broker library.\<close>

definition getReqId :: "'k session \<Rightarrow> int \<times> 'k session" where
  "getReqId s = (reqIdSeq s, s\<lparr>reqIdSeq := reqIdSeq s + 1\<rparr>)"

definition placeOrder :: "'k session \<Rightarrow> 'k \<Rightarrow> broker_order \<Rightarrow> 'k session" where
  "placeOrder s contract' order' = s\<lparr>placed := placed s @ [(contract', order')]\<rparr>"

text \<open>
  The entry order as \<open>_place_SNP\<close> reads it: its \<open>action\<close>, \<open>quantity\<close>, \<open>price\<close>
  and \<open>reference\<close>. The parameter is annotated \<open>OrderData\<close>, whose class in
  \<open>data_objects.py\<close> keeps the side as \<open>ownership\<close> and no reference: the adapter
  was written for an order that has these four attributes.
\<close>

record EntryOrder =
  action :: OrderAction
  quantity :: int
  price :: pyfloat
  reference :: string

text \<open>\<open>_place_SNP\<close>\<close>

definition place_SNP :: "'k session \<Rightarrow> 'k \<Rightarrow> EntryOrder \<Rightarrow> 'k session" where
  "place_SNP broker contract' order' =
     (let action' = (if EntryOrder.action order' = Buy then ''BUY'' else ''SELL'');
          reverse_action = (if action' = ''SELL'' then ''BUY'' else ''SELL'');
          take_profit_price = py_div2 (EntryOrder.price order');
          stop_loss_price = py_mul2 (EntryOrder.price order');
          (parent_id, broker1) = getReqId broker;
          parent = LimitOrder action' (EntryOrder.quantity order') (EntryOrder.price order')
                     (reference order') parent_id False None;
          (take_profit_id, broker2) = getReqId broker1;
          take_profit = LimitOrder reverse_action (EntryOrder.quantity order')
                          take_profit_price (reference order') take_profit_id False
                          (Some parent_id);
          (stop_loss_id, broker3) = getReqId broker2;
          stop_loss = StopOrder reverse_action (EntryOrder.quantity order') stop_loss_price
                        (reference order') stop_loss_id True (Some parent_id);
          broker4 = placeOrder broker3 contract' parent;
          broker5 = placeOrder broker4 contract' take_profit;
          broker6 = placeOrder broker5 contract' stop_loss
      in broker6)"

section \<open>\<open>optopus.py\<close>\<close>

text \<open>
  \<open>Optopus._new_order\<close> and \<open>Optopus._order_status\<close> (\<open>order_status_handler\<close>
  here): both bodies are \<open>pass\<close>. \<open>'s\<close> is the state of the system.
\<close>

definition new_order :: "'s \<Rightarrow> 's" where
  "new_order self = self"

definition order_status_handler :: "'s \<Rightarrow> 's" where
  "order_status_handler self = self"

text \<open>
  \<open>IBBrokerAdapter._onNewOrderEvent\<close> and \<open>_onOrderStatusEvent\<close>: each calls its
  callback with no argument, so the trade the broker reports goes no further.
  \<open>Optopus.start\<close> sets the callbacks to the two handlers above. The one event that
  carries a broker status into the core is the commission report, which
  \<open>Optopus.start\<close> hands to \<open>DataManager._commission_report\<close>; the module
  \<open>optopus.data_manager\<close> is not among the source files.
\<close>

definition onNewOrderEvent :: "('s \<Rightarrow> 's) \<Rightarrow> 's \<Rightarrow> Trade \<Rightarrow> 's" where
  "onNewOrderEvent emit_new_order st trade = emit_new_order st"

definition onOrderStatusEvent :: "('s \<Rightarrow> 's) \<Rightarrow> 's \<Rightarrow> Trade \<Rightarrow> 's" where
  "onOrderStatusEvent emit_order_status st trade = emit_order_status st"

section \<open>The order ledger and its status state machine\<close>

text \<open>
  The part of the core that keeps the orders and applies the status of a reported trade
  to them (the data and order managers) is not among the source files. The source has
  its declarations only: the enumeration \<open>OrderStatus\<close>, \<open>OrderData\<close>, which starts
  in \<open>APIPending\<close>, and \<open>TradeData\<close>. What follows is modelled from sections 3, 4.2,
  4.4, 7 and 8 of the spec.
\<close>

text \<open>\<open>TradeData\<close> of \<open>data_objects.py\<close>: the record of a fill event.\<close>

record TradeData =
  order_id :: string
  status :: OrderStatus
  remaining :: int
  commission :: pyfloat

text \<open>
  Modelled from the spec: the terminal states of an order, "filled, cancelled,
  inactive"; the code that uses them is missing.
\<close>

definition terminal :: "OrderStatus \<Rightarrow> bool" where
  "terminal s = (s = Filled \<or> s = Cancelled \<or> s = Inactive)"

text \<open>
  Modelled from the spec: the legal transitions of section 4.2, whose code is missing,
  as the list of states that one transition leads to. The spec's chain is
  "pending-submission, then submitted-to-venue, then pre-submitted or submitted, then
  filled, cancelled or inactive"; \<open>APIPending\<close>, in which \<open>OrderData.__init__\<close>
  starts every order, is the first of the chain and \<open>PendingSubmit\<close> the second.
  "api-cancelled is reachable from any pre-terminal state": from each of the four
  states of the chain that come before the terminal ones. "pending-cancel is an
  intermediate state en route to cancelled": it is entered from the two states that
  cancelled is entered from, and leads to cancelled. No transition leaves a terminal
  state, and the spec gives none that leaves api-cancelled.
\<close>

fun successors :: "OrderStatus \<Rightarrow> OrderStatus list" where
  "successors APIPending = [PendingSubmit, APICancelled]"
| "successors PendingSubmit = [PreSubmitted, Submitted, APICancelled]"
| "successors PreSubmitted = [Filled, Cancelled, Inactive, PendingCancel, APICancelled]"
| "successors Submitted = [Filled, Cancelled, Inactive, PendingCancel, APICancelled]"
| "successors PendingCancel = [Cancelled]"
| "successors APICancelled = []"
| "successors Cancelled = []"
| "successors Filled = []"
| "successors Inactive = []"

text \<open>
  Modelled from the spec: a legal transition of section 4.2, whose code is missing: one
  step along the list above.
\<close>

definition legal_transition :: "OrderStatus \<Rightarrow> OrderStatus \<Rightarrow> bool" where
  "legal_transition old new = (new \<in> set (successors old))"

text \<open>
  Modelled from the spec: "new must be reachable from old per section 4.2", whose code
  is missing. A reported status may skip states, so reachable means by any number of
  legal transitions, none included. \<open>reach_in n\<close> follows at most \<open>n\<close> transitions;
  there are nine states, and \<open>reachable_iff_rtranclp\<close> below shows that nine
  transitions are enough.
\<close>

fun reach_in :: "nat \<Rightarrow> OrderStatus \<Rightarrow> OrderStatus \<Rightarrow> bool" where
  "reach_in 0 old new = (old = new)"
| "reach_in (Suc n) old new =
     (old = new \<or> list_ex (\<lambda>mid. reach_in n mid new) (successors old))"

definition reachable :: "OrderStatus \<Rightarrow> OrderStatus \<Rightarrow> bool" where
  "reachable old new = reach_in 9 old new"

text \<open>
  Modelled from the spec: a status regression, whose code is missing: the reported
  status is another one than the order has, and one from which the order's own status
  is reached.
\<close>

definition regression :: "OrderStatus \<Rightarrow> OrderStatus \<Rightarrow> bool" where
  "regression old new = (new \<noteq> old \<and> reachable new old)"

text \<open>
  Modelled from the spec: the ledger of orders, which the missing managers keep: the
  orders by their identifier.
\<close>

type_synonym ('a, 'd, 'k) ledger = "string \<rightharpoonup> ('a, 'd, 'k) OrderData"

text \<open>
  Modelled from the spec: the handling of a trade event by the missing reconciliation
  code (section 4.4), as far as the order goes: "locate the Order by identifier; if
  missing, record an orphaned-trade anomaly without mutating the ledger; if found,
  advance its status per section 4.2", and by section 8 "new must be reachable from
  old, else ledger status is unchanged". What the spec has the event write to the leg
  of the order is not part of this model.
\<close>

definition apply_trade :: "('a, 'd, 'k) ledger \<Rightarrow> TradeData \<Rightarrow> ('a, 'd, 'k) ledger" where
  "apply_trade ledger trade =
     (case ledger (TradeData.order_id trade) of
        None \<Rightarrow> ledger
      | Some ord \<Rightarrow>
          if reachable (OrderData.status ord) (TradeData.status trade)
          then ledger(TradeData.order_id trade \<mapsto>
                 ord\<lparr>OrderData.status := TradeData.status trade\<rparr>)
          else ledger)"

text \<open>
  Modelled from the spec: "events are processed in arrival order" (section 5), for the
  missing handler above.
\<close>

fun apply_trades :: "('a, 'd, 'k) ledger \<Rightarrow> TradeData list \<Rightarrow> ('a, 'd, 'k) ledger" where
  "apply_trades ledger [] = ledger"
| "apply_trades ledger (t # ts) = apply_trades (apply_trade ledger t) ts"

text \<open>
  How far a state is along the state machine: a measure that every legal transition
  increases, used in the proofs only.
\<close>

fun stage :: "OrderStatus \<Rightarrow> nat" where
  "stage APIPending = 0"
| "stage PendingSubmit = 1"
| "stage PreSubmitted = 2"
| "stage Submitted = 2"
| "stage PendingCancel = 3"
| "stage APICancelled = 4"
| "stage Cancelled = 4"
| "stage Filled = 4"
| "stage Inactive = 4"

section \<open>Worked inputs\<close>

text \<open>
  Concrete inputs for the examples below. In \<open>example_lib\<close> a date is kept as the text
  the broker sends (\<open>YYYYMMDD\<close>) and printed as \<open>DD-MM-YYYY\<close>; the two other formats
  print nothing. No example depends on what the formats print.
\<close>

definition example_lib :: "string pylib" where
  "example_lib =
     \<lparr> parse_ib_date = (\<lambda>s. Inr s),
       format_date = (\<lambda>d. drop 6 d @ ''-'' @ take 2 (drop 4 d) @ ''-'' @ take 4 d),
       format_datetime = (\<lambda>t. []),
       str_round1 = (\<lambda>x. []) \<rparr>"

text \<open>
  A snapshot with no bid and no last price (both \<open>-1\<close>), an ask of 5 and a close of 10.
\<close>

definition snapshot_no_last :: AssetData where
  "snapshot_no_last =
     AssetData_init ''SPY'' Stock NaN NaN (Fin 10) (Fin (- 1)) NaN (Fin 5) NaN (Fin (- 1)) NaN
       NaN None"

text \<open>Two snapshots of one asset, the first taken at time 1 and the second at time 2.\<close>

definition snapshot_at_1 :: AssetData where
  "snapshot_at_1 =
     AssetData_init ''SPY'' Stock NaN NaN (Fin 270) (Fin 271) NaN (Fin 273) NaN (Fin 272) NaN
       NaN (Some 1)"

definition snapshot_at_2 :: AssetData where
  "snapshot_at_2 =
     AssetData_init ''SPY'' Stock NaN NaN (Fin 270) (Fin 274) NaN (Fin 276) NaN (Fin 275) NaN
       NaN (Some 2)"

definition asset_SPY :: "(string, unit, unit, unit) Asset" where
  "asset_SPY = Asset_init ''USD'' ''SPY'' Stock IB ''USD''"

definition asset_SPX :: "(string, unit, unit, unit) Asset" where
  "asset_SPX = Asset_init ''USD'' ''SPX'' Index IB ''USD''"

text \<open>
  A leg of a sold put with take-profit factor 0.25 and stop-loss factor 3, and the
  entry order of its bracket at price 2.
\<close>

definition leg_quarter :: "(string, string, string, unit, unit) Leg" where
  "leg_quarter =
     Leg_init example_lib 0 (\<lambda>a. a) ''SPY'' Seller Put ''20181221'' (Fin 270) 100 (Fin 2) 1
       ''USD'' (Fin (1 / 4)) (Fin 3) ()"

definition entry_at_2 :: EntryOrder where
  "entry_at_2 =
     \<lparr> EntryOrder.action = Sell, EntryOrder.quantity = 1, EntryOrder.price = Fin 2,
       reference = ''algo-1_SNP_2_3-NL'' \<rparr>"

definition session_at_7 :: "unit session" where
  "session_at_7 = \<lparr> reqIdSeq = 7, placed = [] \<rparr>"

text \<open>
  The contract of a put on SPY, a position of zero contracts in it, and a position in
  a contract whose instrument type is not in the table.
\<close>

definition put_SPY :: Contract where
  "put_SPY =
     \<lparr> conId = 1, symbol = ''SPY'', secType = ''OPT'',
       lastTradeDateOrContractMonth = ''20181221'', Contract.strike = Fin 270,
       Contract.right = ''P'', exchange = ''SMART'', Contract.currency = ''USD'' \<rparr>"

definition position_zero :: Position where
  "position_zero =
     \<lparr> Position.account = ''DU1'', Position.contract = put_SPY, position = Fin 0,
       avgCost = Fin 150 \<rparr>"

definition position_crypto :: Position where
  "position_crypto =
     \<lparr> Position.account = ''DU1'', Position.contract = put_SPY\<lparr>secType := ''CRYPTO''\<rparr>,
       position = Fin 1, avgCost = Fin 150 \<rparr>"

text \<open>
  A trade in that put with a well-formed reference, reported as submitted, and the same
  trade with a side, with a status and with an instrument type that are in no table.
\<close>

definition trade_submitted :: Trade where
  "trade_submitted =
     \<lparr> Trade.contract = put_SPY,
       order = \<lparr> Order.action = ''SELL'', orderRef = ''algo-1_SNP_2_3-NL'',
                 volatility = Fin 0 \<rparr>,
       orderStatus = \<lparr> TradeStatus.status = ''Submitted'', avgFillPrice = Fin 0,
                       TradeStatus.filled = Fin 0 \<rparr> \<rparr>"

definition trade_short_sell :: Trade where
  "trade_short_sell = trade_submitted\<lparr>order := (order trade_submitted)\<lparr>Order.action := ''SSHORT''\<rparr>\<rparr>"

definition trade_api_pending :: Trade where
  "trade_api_pending =
     trade_submitted\<lparr>orderStatus :=
       (orderStatus trade_submitted)\<lparr>TradeStatus.status := ''ApiPending''\<rparr>\<rparr>"

definition trade_crypto :: Trade where
  "trade_crypto = trade_submitted\<lparr>Trade.contract := put_SPY\<lparr>secType := ''CRYPTO''\<rparr>\<rparr>"

text \<open>
  A new order, the same order once filled, a ledger that holds the one and a ledger
  that holds the other, and the trade event that reports a given status of the order.
\<close>

definition order_new :: "(string, string, unit) OrderData" where
  "order_new =
     OrderData_init example_lib 0 ''SPY'' NewLeg Seller 1 (Fin 2) Limit ''20181221''
       (Fin 270) Put ''algo-1_SNP_2_3'' ()"

definition order_filled :: "(string, string, unit) OrderData" where
  "order_filled = order_new\<lparr>OrderData.status := Filled\<rparr>"

definition ledger_new :: "(string, string, unit) ledger" where
  "ledger_new = [OrderData.order_id order_new \<mapsto> order_new]"

definition ledger_filled :: "(string, string, unit) ledger" where
  "ledger_filled = [OrderData.order_id order_new \<mapsto> order_filled]"

definition trade_report :: "OrderStatus \<Rightarrow> TradeData" where
  "trade_report s =
     \<lparr> TradeData.order_id = OrderData.order_id order_new, TradeData.status = s,
       remaining = 0, TradeData.commission = Fin 1 \<rparr>"

text \<open>
  Two answers of the venue: one resolves every contract and gives it an identifier, the
  other one does not know the index SPX.
\<close>

definition venue_all :: "Contract \<Rightarrow> Contract option" where
  "venue_all c = Some (c\<lparr>conId := 1\<rparr>)"

definition venue_no_SPX :: "Contract \<Rightarrow> Contract option" where
  "venue_no_SPX c = (if symbol c = ''SPX'' then None else Some (c\<lparr>conId := 1\<rparr>))"

section \<open>Properties of the floats\<close>

lemma py_le_not_nan: "py_le a b \<Longrightarrow> \<not> is_nan a \<and> \<not> is_nan b"
  by (cases a; cases b) simp_all

lemma py_div2_as_factor: "py_div2 x = py_mul x (Fin (1 / 2))"
  by (cases x) simp_all

lemma not_py_lt_iff: "\<not> py_lt a b \<longleftrightarrow> is_nan a \<or> is_nan b \<or> py_ge a b"
  by (cases a; cases b) (auto simp: py_ge_def)

section \<open>Market price of a snapshot\<close>

text \<open>
  C1, as the code has it. Step 1 selects the last price when it lies within
  \<open>[bid, ask]\<close> or when the midpoint is not a number, and the midpoint otherwise
  (step 2). The market price is the selected value, unless that is not a number or
  exactly \<open>-1\<close>: then it is the previous close (step 3), whatever the close is. So a
  last price of \<open>-1\<close> that step 1 selects gives the close; the midpoint is not tried.
\<close>

theorem market_price_precedence:
  "market_price
     (AssetData_init code' asset_type' high' low' close' bid' bid_size' ask' ask_size' last'
        last_size' volume' time') =
     (let mid = py_div2 (py_add bid' ask');
          selected =
            (if is_nan mid \<or> (py_le bid' last' \<and> py_le last' ask') then last' else mid)
      in if is_nan selected \<or> py_eq selected (Fin (- 1)) then close' else selected)"
  by (cases last') (auto simp: AssetData_init_def derive_market_price_def Let_def)

text \<open>
  The claim as stated fails on a snapshot whose last price is \<open>-1\<close> and lies within
  \<open>[bid, ask]\<close> while the midpoint is a number other than \<open>-1\<close>: the claim sends it to
  the midpoint, 2 here, and the code to the close, 10.
\<close>

theorem last_minus_one_skips_midpoint:
  "last snapshot_no_last = Fin (- 1)
   \<and> py_le (bid snapshot_no_last) (last snapshot_no_last)
   \<and> py_le (last snapshot_no_last) (ask snapshot_no_last)
   \<and> midpoint snapshot_no_last = Fin 2
   \<and> close snapshot_no_last = Fin 10
   \<and> market_price snapshot_no_last = Fin 10"
  by (simp add: snapshot_no_last_def AssetData_init_def derive_market_price_def Let_def)

section \<open>Bracket orders\<close>

text \<open>
  C2, as the code has it. The bracket of an entry order is three orders placed for the
  same contract, in this order: the entry, a limit order on the order's own side at
  the entry price; the take-profit, a limit order on the reverse side at the entry
  price times 0.5; the stop-loss, a stop order on the reverse side with trigger at the
  entry price times 2. All three carry the quantity and the reference of the entry
  order, the two protective orders name the entry as their parent, and only the last
  is transmitted. No factor of a leg enters: the two factors are fixed.
\<close>

theorem bracket_prices_fixed_factors:
  "placed (place_SNP broker c ord) = placed broker @
     [(c, LimitOrder (if EntryOrder.action ord = Buy then ''BUY'' else ''SELL'')
            (EntryOrder.quantity ord) (EntryOrder.price ord) (reference ord)
            (reqIdSeq broker) False None),
      (c, LimitOrder (if EntryOrder.action ord = Buy then ''SELL'' else ''BUY'')
            (EntryOrder.quantity ord) (py_mul (EntryOrder.price ord) (Fin (1 / 2)))
            (reference ord) (reqIdSeq broker + 1) False (Some (reqIdSeq broker))),
      (c, StopOrder (if EntryOrder.action ord = Buy then ''SELL'' else ''BUY'')
            (EntryOrder.quantity ord) (py_mul (EntryOrder.price ord) (Fin 2))
            (reference ord) (reqIdSeq broker + 2) True (Some (reqIdSeq broker)))]"
  by (simp add: place_SNP_def getReqId_def placeOrder_def Let_def py_mul2_def
      py_div2_as_factor)

text \<open>
  The claim as stated fails for a leg whose factors are not 0.5 and 2: for the entry
  price 2 and a leg with factors 0.25 and 3 the claim asks for a take-profit at 0.5 and
  a stop-loss at 6, and the bracket has them at 1 and 4.
\<close>

theorem bracket_ignores_leg_factors:
  "map snd (placed (place_SNP session_at_7 () entry_at_2)) =
     [LimitOrder ''SELL'' 1 (Fin 2) ''algo-1_SNP_2_3-NL'' 7 False None,
      LimitOrder ''BUY'' 1 (Fin 1) ''algo-1_SNP_2_3-NL'' 8 False (Some 7),
      StopOrder ''BUY'' 1 (Fin 4) ''algo-1_SNP_2_3-NL'' 9 True (Some 7)]
   \<and> py_mul (EntryOrder.price entry_at_2) (take_profit_factor leg_quarter) = Fin (1 / 2)
   \<and> py_mul (EntryOrder.price entry_at_2) (stop_loss_factor leg_quarter) = Fin 6"
  by (simp add: place_SNP_def getReqId_def placeOrder_def Let_def py_mul2_def
      session_at_7_def entry_at_2_def leg_quarter_def Leg_init_def)

section \<open>Moneyness\<close>

text \<open>
  What \<open>_calculate_moneyness\<close> returns for a call and for a put, on all floats.
\<close>

lemma calculate_moneyness_cases:
  "calculate_moneyness K P U ''C'' =
     Inr (if is_nan U \<or> is_nan K \<or> py_ge U K then InTheMoney else OutTheMoney,
          py_max0 (py_sub U K),
          py_sub P (py_max0 (py_sub U K)))
   \<and> calculate_moneyness K P U ''P'' =
     Inr (if is_nan U \<or> is_nan K \<or> py_le U K then InTheMoney else OutTheMoney,
          py_max0 (py_sub K U),
          py_sub P (py_max0 (py_sub K U)))"
proof (intro conjI)
  show "calculate_moneyness K P U ''C'' =
     Inr (if is_nan U \<or> is_nan K \<or> py_ge U K then InTheMoney else OutTheMoney,
          py_max0 (py_sub U K),
          py_sub P (py_max0 (py_sub U K)))"
    by (cases U; cases K) (simp_all add: calculate_moneyness_def py_gt_def py_ge_def Let_def)
  show "calculate_moneyness K P U ''P'' =
     Inr (if is_nan U \<or> is_nan K \<or> py_le U K then InTheMoney else OutTheMoney,
          py_max0 (py_sub K U),
          py_sub P (py_max0 (py_sub K U)))"
    by (cases U; cases K) (simp_all add: calculate_moneyness_def py_gt_def py_ge_def Let_def)
qed

text \<open>On finite values \<open>max(0, a - b)\<close> is the greater of 0 and the difference.\<close>

lemma py_max0_sub_Fin: "py_max0 (py_sub (Fin a) (Fin b)) = Fin (max 0 (a - b))"
  by (simp add: py_max0_def py_sub_def py_gt_def)

text \<open>
  C3. For every strike \<open>K\<close> and underlying price \<open>U\<close> that are numbers, and every
  option price \<open>P\<close>: a call has intrinsic value \<open>max(0, U - K)\<close> and is in the money
  if \<open>U \<ge> K\<close> and out of the money otherwise; a put has intrinsic value
  \<open>max(0, K - U)\<close> and is in the money if \<open>U \<le> K\<close> and out of the money otherwise;
  the extrinsic value is \<open>P\<close> minus the intrinsic value, not clamped at zero.
\<close>

theorem moneyness_of_prices:
  assumes "\<not> is_nan U" and "\<not> is_nan K"
  shows "calculate_moneyness K P U ''C'' =
           Inr (if py_ge U K then InTheMoney else OutTheMoney,
                py_max0 (py_sub U K),
                py_sub P (py_max0 (py_sub U K)))
       \<and> calculate_moneyness K P U ''P'' =
           Inr (if py_le U K then InTheMoney else OutTheMoney,
                py_max0 (py_sub K U),
                py_sub P (py_max0 (py_sub K U)))"
  using assms calculate_moneyness_cases [of K P U] by simp

text \<open>
  With strike 100 and option price 3: at the underlying price 105 the call is in the
  money with intrinsic value 5 and extrinsic value -2, and the put out of the money
  with intrinsic value 0; at 95 the call is out of the money with intrinsic value 0 and
  the put in the money with intrinsic value 5.
\<close>

theorem moneyness_of_prices_witness:
  "\<not> is_nan (Fin 105) \<and> \<not> is_nan (Fin 95) \<and> \<not> is_nan (Fin 100)
   \<and> calculate_moneyness (Fin 100) (Fin 3) (Fin 105) ''C'' = Inr (InTheMoney, Fin 5, Fin (- 2))
   \<and> calculate_moneyness (Fin 100) (Fin 3) (Fin 105) ''P'' = Inr (OutTheMoney, Fin 0, Fin 3)
   \<and> calculate_moneyness (Fin 100) (Fin 3) (Fin 95) ''C'' = Inr (OutTheMoney, Fin 0, Fin 3)
   \<and> calculate_moneyness (Fin 100) (Fin 3) (Fin 95) ''P'' = Inr (InTheMoney, Fin 5, Fin (- 2))"
proof -
  have n: "\<not> is_nan (Fin 105)" "\<not> is_nan (Fin 95)" "\<not> is_nan (Fin 100)"
    by simp_all
  from moneyness_of_prices [OF n(1) n(3), of "Fin 3"]
    moneyness_of_prices [OF n(2) n(3), of "Fin 3"]
  show ?thesis
    by (simp add: py_ge_def py_max0_def py_gt_def py_sub_def)
qed

section \<open>Positions\<close>

text \<open>
  A position that is translated has the ownership of its sign and the absolute value
  of the reported quantity.
\<close>

lemma translate_position_sign:
  "translate_position lib item = Inr p \<Longrightarrow>
   PositionData.quantity p = py_abs (position item) \<and>
   (py_gt (position item) (Fin 0) \<and> PositionData.ownership p = Some Buyer
    \<or> py_lt (position item) (Fin 0) \<and> PositionData.ownership p = Some Seller)"
  by (auto simp: translate_position_def PositionData_init_def Let_def py_gt_def
       split: sum.splits option.splits if_splits)

text \<open>A reported quantity that is neither positive nor negative is never translated.\<close>

lemma translate_position_no_sign_raises:
  "\<not> py_gt (position item) (Fin 0) \<Longrightarrow> \<not> py_lt (position item) (Fin 0) \<Longrightarrow>
   \<exists>e. translate_position lib item = Inl e"
  by (auto simp: translate_position_def PositionData_init_def Let_def
       split: sum.splits option.splits if_splits)

text \<open>
  C4: what the code does with a reported quantity of zero. The ownership is \<open>None\<close>,
  and the constructor of the position reads its \<open>value\<close>: the translation of a position
  of zero contracts in a put on SPY raises \<open>AttributeError\<close>. It yields no position
  and no "no position" result.
\<close>

theorem translate_position_zero_raises:
  "translate_position example_lib position_zero = Inl AttributeError"
  by (simp add: translate_position_def position_zero_def put_SPY_def example_lib_def
      subscript_def sectype_translation_def translate_expiration_def translate_right_def
      right_translation_def PositionData_init_def py_gt_def Let_def)

section \<open>Order status\<close>

text \<open>A new order starts in the state \<open>APIPending\<close>.\<close>

lemma OrderData_init_status:
  "OrderData.status (OrderData_init lib now a r ow q p ot ex k rt ref c) = APIPending"
  by (simp add: OrderData_init_def)

text \<open>In the source, an order event reaches a handler that changes nothing.\<close>

lemma order_events_change_nothing:
  "onNewOrderEvent new_order st trade = st
   \<and> onOrderStatusEvent order_status_handler st trade = st"
  by (simp add: onNewOrderEvent_def onOrderStatusEvent_def new_order_def
      order_status_handler_def)

text \<open>Every legal transition leads further along the state machine.\<close>

lemma legal_transition_stage: "legal_transition a b \<Longrightarrow> stage a < stage b"
  by (cases a) (auto simp: legal_transition_def)

lemma reach_in_rtranclp: "reach_in n a b \<Longrightarrow> legal_transition\<^sup>*\<^sup>* a b"
proof (induction n arbitrary: a)
  case 0
  then show ?case by simp
next
  case (Suc n)
  show ?case
  proof (cases "a = b")
    case True
    then show ?thesis by simp
  next
    case False
    with Suc.prems obtain mid where m: "mid \<in> set (successors a)" and r: "reach_in n mid b"
      by (auto simp: list_ex_iff)
    from m have "legal_transition a mid" by (simp add: legal_transition_def)
    moreover from r have "legal_transition\<^sup>*\<^sup>* mid b" by (rule Suc.IH)
    ultimately show ?thesis by (rule converse_rtranclp_into_rtranclp)
  qed
qed

lemma reach_in_refl: "reach_in n a a"
  by (cases n) simp_all

text \<open>Enough transitions: from stage \<open>k\<close>, no chain has more than \<open>4 - k\<close> of them.\<close>

lemma rtranclp_reach_in:
  "legal_transition\<^sup>*\<^sup>* a b \<Longrightarrow> 4 \<le> stage a + n \<Longrightarrow> reach_in n a b"
proof (induction arbitrary: n rule: converse_rtranclp_induct)
  case base
  show ?case by (rule reach_in_refl)
next
  case (step a mid)
  from step.hyps(1) have lt: "stage a < stage mid" by (rule legal_transition_stage)
  have "stage mid \<le> 4" by (cases mid) simp_all
  with lt step.prems obtain n' where n: "n = Suc n'" by (cases n) auto
  with lt step.prems have "4 \<le> stage mid + n'" by simp
  then have "reach_in n' mid b" by (rule step.IH)
  moreover from step.hyps(1) have "mid \<in> set (successors a)"
    by (simp add: legal_transition_def)
  ultimately show ?case using n by (auto simp: list_ex_iff)
qed

text \<open>
  \<open>reachable\<close> is the reflexive and transitive closure of the legal transitions.
\<close>

lemma reachable_iff_rtranclp: "reachable a b \<longleftrightarrow> legal_transition\<^sup>*\<^sup>* a b"
  by (auto simp: reachable_def intro: reach_in_rtranclp rtranclp_reach_in)

lemma reachable_refl: "reachable a a"
  by (simp add: reachable_iff_rtranclp)

lemma reachable_trans: "reachable a b \<Longrightarrow> reachable b c \<Longrightarrow> reachable a c"
  by (simp add: reachable_iff_rtranclp)

lemma reachable_stage: "reachable a b \<Longrightarrow> a = b \<or> stage a < stage b"
  unfolding reachable_iff_rtranclp
proof (induction rule: rtranclp_induct)
  case base
  then show ?case by simp
next
  case (step y z)
  from step.hyps(2) have "stage y < stage z" by (rule legal_transition_stage)
  with step.IH show ?case by auto
qed

text \<open>The state machine has no way back: a regression is never reachable.\<close>

lemma regression_not_reachable: "regression old new \<Longrightarrow> \<not> reachable old new"
  using reachable_stage [of old new] reachable_stage [of new old]
  by (auto simp: regression_def)

lemma terminal_no_transition: "terminal s \<Longrightarrow> \<not> legal_transition s t"
  by (auto simp: terminal_def legal_transition_def)

lemma terminal_reachable: "terminal s \<Longrightarrow> reachable s t \<Longrightarrow> t = s"
  unfolding reachable_iff_rtranclp
  by (erule converse_rtranclpE) (auto dest: terminal_no_transition)

lemma apply_trade_status:
  assumes "ledger oid = Some ord"
  shows "\<exists>ord'. apply_trade ledger trade oid = Some ord'
           \<and> reachable (OrderData.status ord) (OrderData.status ord')"
  using assms by (auto simp: apply_trade_def reachable_refl split: option.splits)

lemma apply_trades_status:
  assumes "ledger oid = Some ord"
  shows "\<exists>ord'. apply_trades ledger trades oid = Some ord'
           \<and> reachable (OrderData.status ord) (OrderData.status ord')"
  using assms
proof (induction trades arbitrary: ledger ord)
  case Nil
  then show ?case by (simp add: reachable_refl)
next
  case (Cons t ts)
  from Cons.prems have "\<exists>mid. apply_trade ledger t oid = Some mid
           \<and> reachable (OrderData.status ord) (OrderData.status mid)"
    by (rule apply_trade_status)
  then obtain mid where m: "apply_trade ledger t oid = Some mid"
    and r: "reachable (OrderData.status ord) (OrderData.status mid)" by blast
  from m have "\<exists>ord'. apply_trades (apply_trade ledger t) ts oid = Some ord'
           \<and> reachable (OrderData.status mid) (OrderData.status ord')"
    by (rule Cons.IH)
  then obtain ord' where
    o: "apply_trades (apply_trade ledger t) ts oid = Some ord'"
    and r': "reachable (OrderData.status mid) (OrderData.status ord')" by blast
  from r r' have "reachable (OrderData.status ord) (OrderData.status ord')"
    by (rule reachable_trans)
  with o show ?case by simp
qed

lemma apply_trade_discard:
  assumes "ledger (TradeData.order_id trade) = Some ord"
    and "\<not> reachable (OrderData.status ord) (TradeData.status trade)"
  shows "apply_trade ledger trade = ledger"
  using assms by (simp add: apply_trade_def)

lemma apply_trade_advance:
  assumes "ledger (TradeData.order_id trade) = Some ord"
    and "reachable (OrderData.status ord) (TradeData.status trade)"
  shows "apply_trade ledger trade (TradeData.order_id trade)
           = Some (ord\<lparr>OrderData.status := TradeData.status trade\<rparr>)"
  using assms by (simp add: apply_trade_def)

text \<open>
  C5, on the ledger and the state machine modelled from the spec. For every order of
  the ledger: after any sequence of trade events the order is still in the ledger and
  its status is reachable from the one it had, by legal transitions only, and is the
  same if that one was terminal; no legal transition leaves a terminal state; an event
  for the order that reports a regression, or another status than the terminal one the
  order has, leaves the whole ledger unchanged; and an event for the order that reports
  a status reachable from the order's is applied.
\<close>

theorem order_status_forward_only:
  assumes known: "ledger oid = Some ord"
  shows "(\<exists>ord'. apply_trades ledger trades oid = Some ord'
            \<and> reachable (OrderData.status ord) (OrderData.status ord')
            \<and> (terminal (OrderData.status ord) \<longrightarrow>
                 OrderData.status ord' = OrderData.status ord))
       \<and> (terminal (OrderData.status ord) \<longrightarrow> \<not> legal_transition (OrderData.status ord) s)
       \<and> (TradeData.order_id trade = oid
            \<and> (regression (OrderData.status ord) (TradeData.status trade)
                \<or> (terminal (OrderData.status ord)
                    \<and> TradeData.status trade \<noteq> OrderData.status ord)) \<longrightarrow>
           apply_trade ledger trade = ledger)
       \<and> (TradeData.order_id trade = oid
            \<and> reachable (OrderData.status ord) (TradeData.status trade) \<longrightarrow>
           apply_trade ledger trade oid
             = Some (ord\<lparr>OrderData.status := TradeData.status trade\<rparr>))"
proof (intro conjI impI)
  from known have "\<exists>ord'. apply_trades ledger trades oid = Some ord'
           \<and> reachable (OrderData.status ord) (OrderData.status ord')"
    by (rule apply_trades_status)
  then obtain ord' where o: "apply_trades ledger trades oid = Some ord'"
    and r: "reachable (OrderData.status ord) (OrderData.status ord')" by blast
  have "terminal (OrderData.status ord) \<longrightarrow> OrderData.status ord' = OrderData.status ord"
    using r by (auto dest: terminal_reachable)
  with o r show "\<exists>ord'. apply_trades ledger trades oid = Some ord'
            \<and> reachable (OrderData.status ord) (OrderData.status ord')
            \<and> (terminal (OrderData.status ord) \<longrightarrow>
                 OrderData.status ord' = OrderData.status ord)"
    by blast
next
  assume "terminal (OrderData.status ord)"
  then show "\<not> legal_transition (OrderData.status ord) s"
    by (rule terminal_no_transition)
next
  assume a: "TradeData.order_id trade = oid
            \<and> (regression (OrderData.status ord) (TradeData.status trade)
                \<or> (terminal (OrderData.status ord)
                    \<and> TradeData.status trade \<noteq> OrderData.status ord))"
  then have "\<not> reachable (OrderData.status ord) (TradeData.status trade)"
    by (auto dest: regression_not_reachable terminal_reachable)
  with a known show "apply_trade ledger trade = ledger"
    by (auto intro: apply_trade_discard)
next
  assume a: "TradeData.order_id trade = oid
            \<and> reachable (OrderData.status ord) (TradeData.status trade)"
  with known show "apply_trade ledger trade oid
             = Some (ord\<lparr>OrderData.status := TradeData.status trade\<rparr>)"
    by (auto intro: apply_trade_advance)
qed

text \<open>
  A filled order stays as it is when a trade event reports it as submitted, which is a
  regression and a step out of a terminal state. A new order reported as submitted
  becomes submitted. A new order reported as submitted, filled, submitted again and
  cancelled ends filled: the first two events are applied, the last two discarded.
\<close>

theorem order_status_forward_only_witness:
  "ledger_filled (OrderData.order_id order_new) = Some order_filled
   \<and> terminal (OrderData.status order_filled)
   \<and> regression (OrderData.status order_filled) (TradeData.status (trade_report Submitted))
   \<and> apply_trade ledger_filled (trade_report Submitted) = ledger_filled
   \<and> (\<exists>ord'. apply_trades ledger_filled [trade_report Submitted, trade_report Cancelled]
                (OrderData.order_id order_new) = Some ord'
              \<and> OrderData.status ord' = Filled)
   \<and> ledger_new (OrderData.order_id order_new) = Some order_new
   \<and> OrderData.status order_new = APIPending
   \<and> reachable (OrderData.status order_new) (TradeData.status (trade_report Submitted))
   \<and> apply_trade ledger_new (trade_report Submitted) (OrderData.order_id order_new)
       = Some (order_new\<lparr>OrderData.status := Submitted\<rparr>)
   \<and> apply_trades ledger_new
        [trade_report Submitted, trade_report Filled, trade_report Submitted,
         trade_report Cancelled]
       = ledger_filled"
proof -
  let ?oid = "OrderData.order_id order_new"
  have k1: "ledger_filled ?oid = Some order_filled"
    by (simp add: ledger_filled_def)
  have k2: "ledger_new ?oid = Some order_new"
    by (simp add: ledger_new_def)
  have st: "OrderData.status order_filled = Filled" "OrderData.status order_new = APIPending"
    by (simp_all add: order_filled_def order_new_def OrderData_init_def)
  have tr: "TradeData.order_id (trade_report s) = ?oid" "TradeData.status (trade_report s) = s"
    for s by (simp_all add: trade_report_def)
  have te: "terminal (OrderData.status order_filled)"
    by (simp add: st terminal_def)
  have re: "regression (OrderData.status order_filled) (TradeData.status (trade_report Submitted))"
    by (simp add: st tr regression_def reachable_def eval_nat_numeral)
  have fw: "reachable (OrderData.status order_new) (TradeData.status (trade_report Submitted))"
    by (simp add: st tr reachable_def eval_nat_numeral)
  note T1 = order_status_forward_only
    [where ledger = ledger_filled and oid = ?oid and ord = order_filled
       and trade = "trade_report Submitted"
       and trades = "[trade_report Submitted, trade_report Cancelled]", OF k1]
  note T2 = order_status_forward_only
    [where ledger = ledger_new and oid = ?oid and ord = order_new
       and trade = "trade_report Submitted", OF k2]
  from T1 te re have a: "apply_trade ledger_filled (trade_report Submitted) = ledger_filled"
    by (simp add: tr)
  from T1 te have b: "\<exists>ord'. apply_trades ledger_filled
                [trade_report Submitted, trade_report Cancelled] ?oid = Some ord'
              \<and> OrderData.status ord' = Filled"
    by (auto simp: st)
  from T2 fw have c: "apply_trade ledger_new (trade_report Submitted) ?oid
       = Some (order_new\<lparr>OrderData.status := Submitted\<rparr>)"
    by (simp add: tr)
  have d: "apply_trades ledger_new
        [trade_report Submitted, trade_report Filled, trade_report Submitted,
         trade_report Cancelled]
       = ledger_filled"
    by (simp add: apply_trade_def ledger_new_def ledger_filled_def order_filled_def tr st
        reachable_def eval_nat_numeral)
  from k1 te re a b k2 st(2) fw c d show ?thesis by simp
qed

section \<open>Qualifying the contracts of the assets\<close>

lemma length_asset_contracts: "length (asset_contracts cv assets) \<le> length assets"
  by (induction assets) simp_all

text \<open>
  When no asset is skipped, every asset is an index or a stock and the contracts carry
  the codes of the assets, in order.
\<close>

lemma asset_contracts_full:
  "length (asset_contracts cv assets) = length assets \<Longrightarrow>
   map symbol (asset_contracts cv assets) = map Asset.code assets"
proof (induction assets)
  case Nil
  then show ?case by simp
next
  case (Cons a assets)
  have le: "length (asset_contracts cv assets) \<le> length assets"
    by (rule length_asset_contracts)
  show ?case
  proof (cases "Asset.asset_type a = Index \<or> Asset.asset_type a = Stock")
    case True
    with Cons show ?thesis
      by (auto simp: Index_contract_def Stock_contract_def)
  next
    case False
    with Cons.prems le show ?thesis by simp
  qed
qed

lemma length_map_filter_le: "length (List.map_filter f xs) \<le> length xs"
  by (induction xs) (simp_all split: option.splits)

lemma map_filter_full:
  "length (List.map_filter f xs) = length xs \<Longrightarrow>
   list_all2 (\<lambda>x y. f x = Some y) xs (List.map_filter f xs)"
proof (induction xs)
  case Nil
  then show ?case by simp
next
  case (Cons x xs)
  have le: "length (List.map_filter f xs) \<le> length xs"
    by (rule length_map_filter_le)
  show ?case
  proof (cases "f x")
    case None
    with Cons.prems le show ?thesis by simp
  next
    case (Some y)
    with Cons show ?thesis by simp
  qed
qed

lemma foldl_by_symbol_dom:
  "dom (foldl (\<lambda>m c. m(symbol c \<mapsto> c)) m0 q) = dom m0 \<union> symbol ` set q"
  by (induction q arbitrary: m0) auto

lemma foldl_by_symbol_val:
  "foldl (\<lambda>m c. m(symbol c \<mapsto> c)) m0 q k = Some c \<Longrightarrow>
   m0 k = Some c \<or> (c \<in> set q \<and> symbol c = k)"
proof (induction q arbitrary: m0)
  case Nil
  then show ?case by simp
next
  case (Cons a q)
  from Cons.prems
  have "foldl (\<lambda>m c. m(symbol c \<mapsto> c)) (m0(symbol a \<mapsto> a)) q k = Some c"
    by (simp only: foldl_Cons)
  then have "(m0(symbol a \<mapsto> a)) k = Some c \<or> (c \<in> set q \<and> symbol c = k)"
    by (rule Cons.IH)
  then show ?case
    by (cases "symbol a = k") auto
qed

lemma contracts_by_symbol_dom: "dom (contracts_by_symbol q) = symbol ` set q"
  by (simp add: contracts_by_symbol_def foldl_by_symbol_dom)

lemma contracts_by_symbol_val:
  "contracts_by_symbol q k = Some c \<Longrightarrow> c \<in> set q \<and> symbol c = k"
  using foldl_by_symbol_val [of Map.empty q k c] by (simp add: contracts_by_symbol_def)

text \<open>
  If the venue keeps the symbol of what it resolves and returns as many contracts as
  there are assets, the symbols returned are the codes of the assets, in order.
\<close>

lemma qualified_symbols:
  assumes sym: "\<forall>c c'. qualify c = Some c' \<longrightarrow> symbol c' = symbol c"
    and len: "length (qualifyContracts qualify (asset_contracts cv assets)) = length assets"
  shows "map symbol (qualifyContracts qualify (asset_contracts cv assets)) =
         map Asset.code assets"
proof -
  let ?cs = "asset_contracts cv assets"
  let ?q = "List.map_filter qualify ?cs"
  have l1: "length ?q \<le> length ?cs" by (rule length_map_filter_le)
  have l2: "length ?cs \<le> length assets" by (rule length_asset_contracts)
  from len l1 l2 have full: "length ?cs = length assets" and qfull: "length ?q = length ?cs"
    by (simp_all add: qualifyContracts_def)
  from qfull have "list_all2 (\<lambda>x y. qualify x = Some y) ?cs ?q" by (rule map_filter_full)
  then have "list_all2 (\<lambda>x y. symbol y = symbol x) ?cs ?q"
    using sym by (auto elim!: list_all2_mono)
  then have "map symbol ?q = map symbol ?cs"
    by (induction rule: list_all2_induct) simp_all
  with asset_contracts_full [OF full] show ?thesis by (simp add: qualifyContracts_def)
qed

text \<open>
  C6. The venue resolves each contract on its own and keeps its symbol. If it returns
  fewer qualified contracts than there are assets, \<open>initialize_assets\<close> raises
  \<open>ValueError\<close> and returns no mapping. If it returns as many, the result is a mapping
  whose keys are exactly the codes of the assets, each mapped to a qualified contract
  of that symbol.
\<close>

theorem initialize_assets_all_or_nothing:
  assumes sym: "\<forall>c c'. qualify c = Some c' \<longrightarrow> symbol c' = symbol c"
  shows "(length (qualifyContracts qualify (asset_contracts cv assets)) < length assets \<longrightarrow>
            initialize_assets cv qualify assets = Inl ValueError)
       \<and> (length (qualifyContracts qualify (asset_contracts cv assets)) = length assets \<longrightarrow>
            (\<exists>m. initialize_assets cv qualify assets = Inr m
               \<and> dom m = Asset.code ` set assets
               \<and> (\<forall>k c. m k = Some c \<longrightarrow>
                     c \<in> set (qualifyContracts qualify (asset_contracts cv assets))
                     \<and> symbol c = k)))"
proof (intro conjI impI)
  assume "length (qualifyContracts qualify (asset_contracts cv assets)) < length assets"
  then show "initialize_assets cv qualify assets = Inl ValueError"
    by (simp add: initialize_assets_def Let_def)
next
  let ?q = "qualifyContracts qualify (asset_contracts cv assets)"
  assume len: "length ?q = length assets"
  then have r: "initialize_assets cv qualify assets = Inr (contracts_by_symbol ?q)"
    by (simp add: initialize_assets_def Let_def)
  from qualified_symbols [OF sym len] have "symbol ` set ?q = Asset.code ` set assets"
    by (metis set_map)
  then have d: "dom (contracts_by_symbol ?q) = Asset.code ` set assets"
    by (simp add: contracts_by_symbol_dom)
  show "\<exists>m. initialize_assets cv qualify assets = Inr m
          \<and> dom m = Asset.code ` set assets
          \<and> (\<forall>k c. m k = Some c \<longrightarrow> c \<in> set ?q \<and> symbol c = k)"
    using r d contracts_by_symbol_val by blast
qed

text \<open>
  For the stock SPY and the index SPX: a venue that does not know SPX returns one
  contract for two assets, and the initialization raises; a venue that resolves both
  gives a mapping with the two codes as its keys.
\<close>

theorem initialize_assets_all_or_nothing_witness:
  "length (qualifyContracts venue_no_SPX (asset_contracts ''USD'' [asset_SPY, asset_SPX]))
     < length [asset_SPY, asset_SPX]
   \<and> initialize_assets ''USD'' venue_no_SPX [asset_SPY, asset_SPX] = Inl ValueError
   \<and> length (qualifyContracts venue_all (asset_contracts ''USD'' [asset_SPY, asset_SPX]))
     = length [asset_SPY, asset_SPX]
   \<and> (\<exists>m. initialize_assets ''USD'' venue_all [asset_SPY, asset_SPX] = Inr m
          \<and> dom m = {''SPY'', ''SPX''})"
proof -
  have s1: "\<forall>c c'. venue_no_SPX c = Some c' \<longrightarrow> symbol c' = symbol c"
    by (auto simp: venue_no_SPX_def split: if_splits)
  have s2: "\<forall>c c'. venue_all c = Some c' \<longrightarrow> symbol c' = symbol c"
    by (auto simp: venue_all_def)
  have fewer:
    "length (qualifyContracts venue_no_SPX (asset_contracts ''USD'' [asset_SPY, asset_SPX]))
       < length [asset_SPY, asset_SPX]"
    by (simp add: qualifyContracts_def venue_no_SPX_def asset_SPY_def
        asset_SPX_def Asset_init_def Index_contract_def Stock_contract_def)
  have same:
    "length (qualifyContracts venue_all (asset_contracts ''USD'' [asset_SPY, asset_SPX]))
       = length [asset_SPY, asset_SPX]"
    by (simp add: qualifyContracts_def venue_all_def asset_SPY_def
        asset_SPX_def Asset_init_def Index_contract_def Stock_contract_def)
  have codes: "Asset.code ` set [asset_SPY, asset_SPX] = {''SPY'', ''SPX''}"
    by (simp add: asset_SPY_def asset_SPX_def Asset_init_def)
  from initialize_assets_all_or_nothing [OF s1, of "''USD''" "[asset_SPY, asset_SPX]"] fewer
  have a: "initialize_assets ''USD'' venue_no_SPX [asset_SPY, asset_SPX] = Inl ValueError"
    by blast
  from initialize_assets_all_or_nothing [OF s2, of "''USD''" "[asset_SPY, asset_SPX]"] same
  have b: "\<exists>m. initialize_assets ''USD'' venue_all [asset_SPY, asset_SPX] = Inr m
             \<and> dom m = Asset.code ` set [asset_SPY, asset_SPX]"
    by blast
  from fewer a same b codes show ?thesis by simp
qed

section \<open>The current snapshot of an asset\<close>

text \<open>
  C7, as the code has it. Assigning a snapshot to \<open>current\<close> replaces the snapshot
  held, whatever the times of the two: the setter compares nothing.
\<close>

theorem current_set_replaces: "current (current_set a v) = Some v"
  by (simp add: current_def current_set_def)

text \<open>
  The claim as stated fails: an asset that holds the snapshot of time 2 and is assigned
  the older snapshot of time 1 holds the older one afterwards.
\<close>

theorem current_set_accepts_older:
  "AssetData.time snapshot_at_1 = Some 1
   \<and> AssetData.time snapshot_at_2 = Some 2
   \<and> current (current_set asset_SPY snapshot_at_2) = Some snapshot_at_2
   \<and> current (current_set (current_set asset_SPY snapshot_at_2) snapshot_at_1)
       = Some snapshot_at_1
   \<and> snapshot_at_1 \<noteq> snapshot_at_2"
  by (simp add: current_def current_set_def snapshot_at_1_def snapshot_at_2_def
      AssetData_init_def Let_def)

section \<open>The translation tables\<close>

text \<open>
  C8, as the code has it. The account tags are translated by a lookup that asks first
  whether the tag is in the table: it is total, and an account value with an unknown
  tag is translated to \<open>None\<close>, which no update follows. The instrument types, the
  sides and the statuses are translated by plain subscripts of their tables. On an
  instrument type outside its table \<open>translate_position\<close> and \<open>translate_trade\<close> raise
  \<open>KeyError\<close>; on a side outside its table \<open>translate_trade\<close> raises \<open>KeyError\<close>; on
  a status outside its table \<open>translate_trade\<close> raises and returns no trade.
\<close>

theorem translation_lookups:
  "translate_account_tag ib_tag = account_translation ib_tag
   \<and> (translate_account_value CUR cv isnum av = None \<longleftrightarrow> tag av \<notin> dom account_translation)
   \<and> (secType (Position.contract p) \<notin> dom sectype_translation \<longrightarrow>
        translate_position lib p = Inl KeyError)
   \<and> (secType (Trade.contract t) \<notin> dom sectype_translation \<longrightarrow>
        translate_trade lib TD now t = Inl KeyError)
   \<and> (Order.action (order t) \<notin> dom ownership_translation \<longrightarrow>
        translate_trade lib TD now t = Inl KeyError)
   \<and> (TradeStatus.status (orderStatus t) \<notin> dom order_status_translation \<longrightarrow>
        (\<exists>e. translate_trade lib TD now t = Inl e))"
proof (intro conjI impI)
  show "translate_account_tag ib_tag = account_translation ib_tag"
    by (cases "account_translation ib_tag") (auto simp: translate_account_tag_def Let_def)
  show "translate_account_value CUR cv isnum av = None \<longleftrightarrow> tag av \<notin> dom account_translation"
    by (cases "account_translation (tag av)")
      (auto simp: translate_account_value_def translate_account_tag_def Let_def
        split: option.splits prod.splits)
next
  assume "secType (Position.contract p) \<notin> dom sectype_translation"
  then show "translate_position lib p = Inl KeyError"
    by (auto simp: translate_position_def subscript_def Let_def split: option.splits)
next
  assume "secType (Trade.contract t) \<notin> dom sectype_translation"
  then show "translate_trade lib TD now t = Inl KeyError"
    by (auto simp: translate_trade_def subscript_def Let_def split: option.splits)
next
  assume "Order.action (order t) \<notin> dom ownership_translation"
  then have "subscript ownership_translation (Order.action (order t)) = Inl KeyError"
    by (auto simp: subscript_def split: option.splits)
  then show "translate_trade lib TD now t = Inl KeyError"
    by (simp add: translate_trade_def subscript_def Let_def split: option.splits)
next
  assume "TradeStatus.status (orderStatus t) \<notin> dom order_status_translation"
  then have "subscript order_status_translation (TradeStatus.status (orderStatus t))
               = Inl KeyError"
    by (auto simp: subscript_def split: option.splits)
  then show "\<exists>e. translate_trade lib TD now t = Inl e"
    by (simp add: translate_trade_def Let_def split: sum.splits)
qed

text \<open>
  An instrument type, a side and a status that the broker can send and the tables do
  not have: each makes its translator raise \<open>KeyError\<close>.
\<close>

theorem translation_lookups_witness:
  "secType (Position.contract position_crypto) \<notin> dom sectype_translation
   \<and> translate_position example_lib position_crypto = Inl KeyError
   \<and> Order.action (order trade_short_sell) \<notin> dom ownership_translation
   \<and> translate_trade example_lib Inr 0 trade_short_sell
       = (Inl KeyError :: error + string TradeData_kwargs)
   \<and> secType (Trade.contract trade_crypto) \<notin> dom sectype_translation
   \<and> translate_trade example_lib Inr 0 trade_crypto
       = (Inl KeyError :: error + string TradeData_kwargs)
   \<and> TradeStatus.status (orderStatus trade_api_pending) \<notin> dom order_status_translation
   \<and> (\<exists>e. translate_trade example_lib Inr 0 trade_api_pending
             = (Inl e :: error + string TradeData_kwargs))
   \<and> translate_trade example_lib Inr 0 trade_api_pending
       = (Inl KeyError :: error + string TradeData_kwargs)"
proof -
  have k4: "secType (Trade.contract trade_crypto) \<notin> dom sectype_translation"
    by (simp add: trade_crypto_def trade_submitted_def put_SPY_def sectype_translation_def
        dom_def)
  have k1: "secType (Position.contract position_crypto) \<notin> dom sectype_translation"
    by (simp add: position_crypto_def put_SPY_def sectype_translation_def dom_def)
  have k2: "Order.action (order trade_short_sell) \<notin> dom ownership_translation"
    by (simp add: trade_short_sell_def trade_submitted_def ownership_translation_def dom_def)
  have k3: "TradeStatus.status (orderStatus trade_api_pending) \<notin> dom order_status_translation"
    by (simp add: trade_api_pending_def trade_submitted_def order_status_translation_def
        dom_def)
  have r3: "translate_trade example_lib Inr 0 trade_api_pending
              = (Inl KeyError :: error + string TradeData_kwargs)"
    by (simp add: translate_trade_def trade_api_pending_def trade_submitted_def put_SPY_def
        example_lib_def subscript_def sectype_translation_def ownership_translation_def
        translate_expiration_def translate_right_def right_translation_def
        parse_orderRef_def strategy_translation_def order_status_translation_def
        py_truthy_def Let_def)
  have r1: "translate_position example_lib position_crypto = Inl KeyError"
    by (rule translation_lookups
          [THEN conjunct2, THEN conjunct2, THEN conjunct1, THEN mp])
       (rule k1)
  have r2: "translate_trade example_lib Inr 0 trade_short_sell
              = (Inl KeyError :: error + string TradeData_kwargs)"
    by (rule translation_lookups
          [THEN conjunct2, THEN conjunct2, THEN conjunct2, THEN conjunct2, THEN conjunct1,
           THEN mp])
       (rule k2)
  have r4: "translate_trade example_lib Inr 0 trade_crypto
              = (Inl KeyError :: error + string TradeData_kwargs)"
    by (rule translation_lookups
          [THEN conjunct2, THEN conjunct2, THEN conjunct2, THEN conjunct1, THEN mp])
       (rule k4)
  have r5: "\<exists>e. translate_trade example_lib Inr 0 trade_api_pending
              = (Inl e :: error + string TradeData_kwargs)"
    by (rule translation_lookups
          [THEN conjunct2, THEN conjunct2, THEN conjunct2, THEN conjunct2, THEN conjunct2,
           THEN mp])
       (rule k3)
  from k1 r1 k2 r2 k4 r4 k3 r5 r3 show ?thesis by simp
qed

text \<open>
  The claim as stated fails on a position in a contract whose instrument type is not
  in the table: \<open>translate_position\<close> raises \<open>KeyError\<close>.
\<close>

theorem translate_position_unknown_sectype_raises:
  "secType (Position.contract position_crypto) = ''CRYPTO''
   \<and> sectype_translation ''CRYPTO'' = None
   \<and> translate_position example_lib position_crypto = Inl KeyError"
  by (simp add: translate_position_def position_crypto_def put_SPY_def subscript_def
      sectype_translation_def Let_def)

section \<open>Historical data of an asset\<close>

lemma assign_keeps_updated:
  "historical_updated (assign a x) = historical_updated a
   \<and> historical_IV_updated (assign a x) = historical_IV_updated a"
  by (cases x) (simp_all add: current_set_def historical_set_def historical_IV_set_def)

lemma assign_all_keeps_updated:
  "historical_updated (assign_all a xs) = historical_updated a
   \<and> historical_IV_updated (assign_all a xs) = historical_IV_updated a"
  by (induction xs arbitrary: a) (simp_all add: assign_keeps_updated)

text \<open>
  C9. Both historical setters record the time of the update in
  \<open>historical_data_updated\<close>. On an asset that has been constructed and then assigned
  to through its public setters only, any number of times, \<open>historical_updated\<close> and
  \<open>historical_IV_updated\<close> are still \<open>None\<close>, and \<open>historical_is_updated\<close> and
  \<open>historical_IV_is_updated\<close> return \<open>False\<close> at any time they are asked.
\<close>

theorem historical_checkers_always_false:
  "historical_data_updated (historical_set a v t) = Some t
   \<and> historical_data_updated (historical_IV_set a v t) = Some t
   \<and> historical_updated (assign_all (Asset_init CURRENCY c ty d cur) xs) = None
   \<and> historical_IV_updated (assign_all (Asset_init CURRENCY c ty d cur) xs) = None
   \<and> historical_is_updated (assign_all (Asset_init CURRENCY c ty d cur) xs) now = False
   \<and> historical_IV_is_updated (assign_all (Asset_init CURRENCY c ty d cur) xs) now = False"
  by (simp add: historical_is_updated_def historical_IV_is_updated_def
      assign_all_keeps_updated Asset_init_def historical_set_def historical_IV_set_def)

section \<open>The currency of an asset\<close>

text \<open>
  C10. Whatever code, asset type, data source and currency the constructor of an asset
  is given, the currency of the asset is the constant \<open>CURRENCY\<close>: the currency
  argument is not read.
\<close>

theorem asset_currency_is_constant:
  "Asset.currency (Asset_init CURRENCY c ty d cur) = CURRENCY"
  by (simp add: Asset_init_def)

end
